theory Spec2Isabelle
  imports Main "HOL-Library.Sublist"
begin

section \<open>Python values and the built-ins the application calls\<close>

text \<open>
  The application is a Python class running inside the AppDaemon host. Its configuration
  comes from a YAML file, so a configuration value is one of the objects YAML builds: null,
  a boolean, an integer, a float, a string, a byte string, a date or datetime, a sequence
  or a mapping. A finite float is kept exactly, as mantissa times a power of two;
  infinities and NaN are separate constructors, since \<^verbatim>\<open>int()\<close> treats them
  differently. A date or datetime is kept by its microseconds; nothing here reads them.
\<close>

datatype py_error = ValueError | TypeError | OverflowError

datatype pyfloat = Finite int int | Infinity bool | NaN

datatype pyval =
    PNone
  | PBool bool
  | PInt int
  | PFloat pyfloat
  | PStr string
  | PBytes string
  | PDate int
  | PList "pyval list"
  | PDict "(pyval \<times> pyval) list"

text \<open>Truth value testing, as \<^verbatim>\<open>if not x\<close> performs it.\<close>

fun truthy :: "pyval \<Rightarrow> bool" where
  "truthy PNone = False"
| "truthy (PBool b) = b"
| "truthy (PInt i) = (i \<noteq> 0)"
| "truthy (PFloat f) = (case f of Finite m e \<Rightarrow> m \<noteq> 0 | Infinity neg \<Rightarrow> True | NaN \<Rightarrow> True)"
| "truthy (PStr s) = (s \<noteq> [])"
| "truthy (PBytes s) = (s \<noteq> [])"
| "truthy (PDate d) = True"
| "truthy (PList xs) = (xs \<noteq> [])"
| "truthy (PDict kvs) = (kvs \<noteq> [])"

text \<open>
  Whitespace as \<^verbatim>\<open>str.strip()\<close> sees it, on the ASCII range: tab, line feed,
  vertical tab, form feed, carriage return, the four separators 0x1c to 0x1f, and space.
\<close>

definition is_space :: "char \<Rightarrow> bool" where
  "is_space c = (of_char c \<in> set [9, 10, 11, 12, 13, 28, 29, 30, 31, 32 :: nat])"

definition strip :: "string \<Rightarrow> string" where
  "strip s = rev (dropWhile is_space (rev (dropWhile is_space s)))"

text \<open>
  \<^verbatim>\<open>int()\<close> skips fewer characters around the digits of an ASCII string than
  \<^verbatim>\<open>str.strip()\<close> removes: tab, line feed, vertical tab, form feed, carriage return and
  space, but not the separators 0x1c to 0x1f.
\<close>

definition is_int_space :: "char \<Rightarrow> bool" where
  "is_int_space c = (of_char c \<in> set [9, 10, 11, 12, 13, 32 :: nat])"

definition int_strip :: "string \<Rightarrow> string" where
  "int_strip s = rev (dropWhile is_int_space (rev (dropWhile is_int_space s)))"

definition is_digit :: "char \<Rightarrow> bool" where
  "is_digit c = (48 \<le> (of_char c :: nat) \<and> (of_char c :: nat) \<le> 57)"

definition digit_val :: "char \<Rightarrow> int" where
  "digit_val c = int (of_char c) - 48"

text \<open>
  Decimal digits after the first one; a single underscore may stand between two digits.
\<close>

fun parse_digits :: "int \<Rightarrow> string \<Rightarrow> int option" where
  "parse_digits acc [] = Some acc"
| "parse_digits acc (c # cs) =
     (if is_digit c then parse_digits (acc * 10 + digit_val c) cs
      else if c = CHR ''_'' then
        (case cs of
           [] \<Rightarrow> None
         | d # ds \<Rightarrow> if is_digit d then parse_digits (acc * 10 + digit_val d) ds else None)
      else None)"

text \<open>
  \<^verbatim>\<open>int(s)\<close> for an ASCII string or a byte string, base ten: the whitespace around is
  skipped, one sign is allowed, then at least one digit. \<open>limit\<close> is the interpreter's
  \<^verbatim>\<open>sys.get_int_max_str_digits()\<close> (4300 unless configured, 0 for no limit and in
  interpreters that have none): a text of more than 640 digits that has more digits than a
  positive limit is refused, leading zeros counted, underscores not. \<open>None\<close> stands for
  \<open>ValueError\<close>. (Digits and whitespace outside ASCII are outside this model.)
\<close>

definition int_of_str :: "nat \<Rightarrow> string \<Rightarrow> int option" where
  "int_of_str limit s =
     (let t = int_strip s;
          neg = (t \<noteq> [] \<and> hd t = CHR ''-'');
          body = (if t \<noteq> [] \<and> (hd t = CHR ''-'' \<or> hd t = CHR ''+'') then tl t else t);
          digits = length (filter is_digit body)
      in if 640 < digits \<and> 0 < limit \<and> limit < digits then None
         else case body of
           [] \<Rightarrow> None
         | c # cs \<Rightarrow>
             if is_digit c
             then map_option (\<lambda>n. if neg then - n else n) (parse_digits (digit_val c) cs)
             else None)"

text \<open>A finite float \<open>m * 2 ^ e\<close> truncated toward zero.\<close>

definition float_trunc :: "int \<Rightarrow> int \<Rightarrow> int" where
  "float_trunc m e =
     (if 0 \<le> e then m * 2 ^ nat e else sgn m * (\<bar>m\<bar> div 2 ^ nat (- e)))"

text \<open>
  \<^verbatim>\<open>self.args\<close> is a dictionary from key to value; \<^verbatim>\<open>self.args.get(key)\<close> gives
  \<^verbatim>\<open>None\<close> for a key that is not there.
\<close>

type_synonym app_args = "string \<Rightarrow> pyval option"

definition dict_get :: "app_args \<Rightarrow> string \<Rightarrow> pyval" where
  "dict_get args key = (case args key of None \<Rightarrow> PNone | Some v \<Rightarrow> v)"

section \<open>Dates and times\<close>

text \<open>
  A \<^verbatim>\<open>datetime\<close> is its wall-clock reading, in microseconds since 0001-01-01T00:00:00,
  with the UTC offset of its \<^verbatim>\<open>tzinfo\<close> in microseconds, or \<open>None\<close> for a naive value.
  The two parsers of the standard library are not code of this repository and differ
  between interpreter versions, so they are parameters of the model. So is
  \<open>whole_seconds\<close>, which stands for \<^verbatim>\<open>int(td.total_seconds())\<close> of a \<^verbatim>\<open>timedelta\<close> given
  in microseconds: \<^verbatim>\<open>total_seconds\<close> is a floating-point division, whose integer part is
  the exact quotient by 1000000 only while the float still separates neighbouring
  microseconds. \<open>int_max_str_digits\<close> is the interpreter's limit on the digits of a text
  that \<^verbatim>\<open>int()\<close> converts.
\<close>

record datetime =
  wall :: int
  tzinfo :: "int option"

record pylib =
  fromisoformat :: "string \<Rightarrow> datetime option"
  strptime :: "string \<Rightarrow> string \<Rightarrow> datetime option"
  whole_seconds :: "int \<Rightarrow> int"
  int_max_str_digits :: nat

text \<open>
  \<^verbatim>\<open>d - timedelta(minutes=m)\<close>: the result must lie between year 1 and year 9999
  (day ordinals 1 to 3652059), or the subtraction raises \<^verbatim>\<open>OverflowError\<close>.
\<close>

definition dt_sub_minutes :: "datetime \<Rightarrow> int \<Rightarrow> py_error + datetime" where
  "dt_sub_minutes d m =
     (let w = wall d - m * 60000000
      in if 0 \<le> w \<and> w < 3652059 * 86400000000 then Inr (d\<lparr>wall := w\<rparr>)
         else Inl OverflowError)"

text \<open>The built-in \<^verbatim>\<open>int(x)\<close>, with the exception it raises.\<close>

fun py_int :: "pylib \<Rightarrow> pyval \<Rightarrow> py_error + int" where
  "py_int py PNone = Inl TypeError"
| "py_int py (PBool b) = Inr (if b then 1 else 0)"
| "py_int py (PInt i) = Inr i"
| "py_int py (PFloat f) =
     (case f of
        Finite m e \<Rightarrow> Inr (float_trunc m e)
      | Infinity neg \<Rightarrow> Inl OverflowError
      | NaN \<Rightarrow> Inl ValueError)"
| "py_int py (PStr s) =
     (case int_of_str (int_max_str_digits py) s of None \<Rightarrow> Inl ValueError | Some n \<Rightarrow> Inr n)"
| "py_int py (PBytes s) =
     (case int_of_str (int_max_str_digits py) s of None \<Rightarrow> Inl ValueError | Some n \<Rightarrow> Inr n)"
| "py_int py (PDate d) = Inl TypeError"
| "py_int py (PList xs) = Inl TypeError"
| "py_int py (PDict kvs) = Inl TypeError"

section \<open>The host: log, device actions, timers\<close>

datatype level = DEBUG | INFO | WARNING | ERROR

text \<open>The messages the application logs, one constructor for each format string.\<close>

datatype msg =
    Initializing
  | Initialized
  | LegacyArg string string
  | MissingArg string
  | InvalidInteger string pyval
  | NextAwakeSetMsg string
  | CurrentTime int
  | CancellingPrepTimer
  | ScheduledPrep int
  | AlreadyRunning
  | WithinWindow
  | AfterPrepTime int datetime
  | InvalidDatetime string
  | PerformingPrep
  | CancellingPrepEnd
  | ScheduledPrepEnd int
  | PerformingPrepEnd
  | GoodnightExecuted
  | AwakeExecuted
  | NoGoodmorningScene

datatype callback = AwakePreparationTasks | AwakePreparationTasksEnd

datatype listener = GoodnightTriggered | AwakeTriggered | NextAwakeSet

text \<open>
  Every call into the host, in the order the calls are made. \<open>TimerFired\<close> is the host's
  own step: a one-shot timer elapses and leaves the scheduler, then its callback runs.
\<close>

datatype effect =
    Log level msg
  | TurnOn pyval
  | TurnOff pyval
  | RunIn callback int nat
  | CancelTimer nat
  | ListenState listener pyval "string option"
  | TimerFired nat

text \<open>
  The timers that are live in the host after a sequence of calls: \<^verbatim>\<open>run_in\<close> adds
  one, \<^verbatim>\<open>cancel_timer\<close> removes the one with that handle (and does nothing when there
  is none), a timer that fires is removed.
\<close>

fun host_step :: "(nat \<times> callback \<times> int) list \<Rightarrow> effect \<Rightarrow> (nat \<times> callback \<times> int) list" where
  "host_step live (RunIn cb delay h) = live @ [(h, cb, delay)]"
| "host_step live (CancelTimer h) = filter (\<lambda>t. fst t \<noteq> h) live"
| "host_step live (TimerFired h) = filter (\<lambda>t. fst t \<noteq> h) live"
| "host_step live (Log lv m) = live"
| "host_step live (TurnOn e) = live"
| "host_step live (TurnOff e) = live"
| "host_step live (ListenState l e new) = live"

definition live_timers :: "effect list \<Rightarrow> (nat \<times> callback \<times> int) list" where
  "live_timers tr = foldl host_step [] tr"

text \<open>The handles of the live timers that will call \<open>cb\<close>.\<close>

definition live_for :: "callback \<Rightarrow> effect list \<Rightarrow> nat list" where
  "live_for cb tr = map fst (filter (\<lambda>t. fst (snd t) = cb) (live_timers tr))"

section \<open>The application object\<close>

text \<open>
  The attributes of the \<^verbatim>\<open>DailyRoutines\<close> object (a leading underscore of the source
  is dropped), together with what the host has seen: the calls made so far and the handle
  the next \<^verbatim>\<open>run_in\<close> will return.
\<close>

record daily_routines =
  turn_off_lights_scene :: pyval
  warm_water_entity :: pyval
  awake_state_entity :: pyval
  next_awake_entity :: pyval
  prep_offset_minutes :: int
  goodmorning_lights_scene :: pyval
  local_tz :: int
  prep_timer_handle :: "nat option"
  prep_end_timer_handle :: "nat option"
  trace :: "effect list"
  next_handle :: nat

definition FIVE_MINUTES_SECONDS :: int where
  "FIVE_MINUTES_SECONDS = 5 * 60"

definition emit :: "effect \<Rightarrow> daily_routines \<Rightarrow> daily_routines" where
  "emit e s = s\<lparr>trace := trace s @ [e]\<rparr>"

definition log :: "level \<Rightarrow> msg \<Rightarrow> daily_routines \<Rightarrow> daily_routines" where
  "log lv m s = emit (Log lv m) s"

definition turn_on :: "pyval \<Rightarrow> daily_routines \<Rightarrow> daily_routines" where
  "turn_on e s = emit (TurnOn e) s"

definition turn_off :: "pyval \<Rightarrow> daily_routines \<Rightarrow> daily_routines" where
  "turn_off e s = emit (TurnOff e) s"

definition cancel_timer :: "nat \<Rightarrow> daily_routines \<Rightarrow> daily_routines" where
  "cancel_timer h s = emit (CancelTimer h) s"

definition run_in :: "callback \<Rightarrow> int \<Rightarrow> daily_routines \<Rightarrow> nat \<times> daily_routines" where
  "run_in cb delay s =
     (next_handle s, (emit (RunIn cb delay (next_handle s)) s)\<lparr>next_handle := Suc (next_handle s)\<rparr>)"

section \<open>Configuration: \<^verbatim>\<open>_get_required_arg\<close>, \<^verbatim>\<open>_get_int_arg\<close>, \<^verbatim>\<open>initialize\<close>\<close>

text \<open>
  The loop over the aliases: the first alias that is a key of \<^verbatim>\<open>self.args\<close>,
  whatever its value.
\<close>

fun first_alias :: "app_args \<Rightarrow> string list \<Rightarrow> string option" where
  "first_alias args [] = None"
| "first_alias args (alias # aliases) =
     (if args alias \<noteq> None then Some alias else first_alias args aliases)"

text \<open>
  Both getters take the log written so far and return it extended, with either the
  exception raised or the value returned.
\<close>

definition get_required_arg ::
  "app_args \<Rightarrow> string \<Rightarrow> string list \<Rightarrow> effect list \<Rightarrow> effect list \<times> (py_error + pyval)" where
  "get_required_arg args key aliases tr0 =
     (let v0 = dict_get args key;
          (v, tr) =
            (if v0 = PNone \<and> aliases \<noteq> [] then
               (case first_alias args aliases of
                  None \<Rightarrow> (v0, tr0)
                | Some alias \<Rightarrow> (dict_get args alias, tr0 @ [Log WARNING (LegacyArg alias key)]))
             else (v0, tr0))
      in if v = PNone then (tr @ [Log ERROR (MissingArg key)], Inl ValueError)
         else (tr, Inr v))"

definition get_int_arg ::
  "pylib \<Rightarrow> app_args \<Rightarrow> string \<Rightarrow> pyval \<Rightarrow> effect list \<Rightarrow> effect list \<times> (py_error + int)" where
  "get_int_arg py args key dflt tr =
     (let v = (case args key of None \<Rightarrow> dflt | Some x \<Rightarrow> x)
      in if v = PNone then (tr @ [Log ERROR (MissingArg key)], Inl ValueError)
         else case py_int py v of
                Inr n \<Rightarrow> (tr, Inr n)
              | Inl e \<Rightarrow>
                  if e = TypeError \<or> e = ValueError
                  then (tr @ [Log ERROR (InvalidInteger key v)], Inl ValueError)
                  else (tr, Inl e))"

text \<open>
  \<^verbatim>\<open>initialize\<close>. \<open>tz\<close> is what \<^verbatim>\<open>datetime.now().astimezone().tzinfo\<close> returns at
  start-up: a timezone of fixed offset, the offset the local timezone has at that moment.
  An exception ends the start-up: the result is then the exception with the log written
  up to it.
\<close>

definition initialize ::
  "pylib \<Rightarrow> int \<Rightarrow> app_args \<Rightarrow> (py_error \<times> effect list) + daily_routines" where
  "initialize py tz args =
     (case get_required_arg args ''turn_off_lights_scene'' [''turn_off_ligts_scene'']
             [Log INFO Initializing] of
        (tr1, Inl e) \<Rightarrow> Inl (e, tr1)
      | (tr1, Inr lights) \<Rightarrow>
     (case get_required_arg args ''ww_activate'' [] tr1 of
        (tr2, Inl e) \<Rightarrow> Inl (e, tr2)
      | (tr2, Inr ww) \<Rightarrow>
     (case get_required_arg args ''awake_state'' [] tr2 of
        (tr3, Inl e) \<Rightarrow> Inl (e, tr3)
      | (tr3, Inr awake) \<Rightarrow>
     (case get_required_arg args ''next_awake_time'' [] tr3 of
        (tr4, Inl e) \<Rightarrow> Inl (e, tr4)
      | (tr4, Inr next_awake) \<Rightarrow>
     (case get_int_arg py args ''prep_offset_minutes'' PNone tr4 of
        (tr5, Inl e) \<Rightarrow> Inl (e, tr5)
      | (tr5, Inr offset) \<Rightarrow>
          Inr \<lparr> turn_off_lights_scene = lights,
                warm_water_entity = ww,
                awake_state_entity = awake,
                next_awake_entity = next_awake,
                prep_offset_minutes = offset,
                goodmorning_lights_scene = dict_get args ''goodmorning_lights_scene'',
                local_tz = tz,
                prep_timer_handle = None,
                prep_end_timer_handle = None,
                trace = tr5 @
                  [ListenState GoodnightTriggered awake (Some ''sleep''),
                   ListenState AwakeTriggered awake (Some ''awake''),
                   ListenState NextAwakeSet next_awake None,
                   Log INFO Initialized],
                next_handle = 0 \<rparr>)))))"

section \<open>The timestamp parser: \<^verbatim>\<open>_parse_next_awake_time\<close>\<close>

text \<open>The four \<^verbatim>\<open>strptime\<close> formats, in the order the source tries them.\<close>

definition fallback_formats :: "string list" where
  "fallback_formats =
     [''%Y-%m-%d %H:%M:%S%z'', ''%Y-%m-%d %H:%M:%S'', ''%Y-%m-%dT%H:%M:%S%z'', ''%Y-%m-%dT%H:%M:%S'']"

fun try_formats :: "pylib \<Rightarrow> string \<Rightarrow> string list \<Rightarrow> datetime option" where
  "try_formats py raw [] = None"
| "try_formats py raw (fmt # fmts) =
     (case strptime py raw fmt of Some parsed \<Rightarrow> Some parsed | None \<Rightarrow> try_formats py raw fmts)"

text \<open>The local \<^verbatim>\<open>raw\<close>: the stripped input, a final \<open>Z\<close> replaced by \<open>+00:00\<close>.\<close>

definition raw_of :: "string \<Rightarrow> string" where
  "raw_of v =
     (let raw = strip v
      in if raw \<noteq> [] \<and> last raw = CHR ''Z'' then butlast raw @ ''+00:00'' else raw)"

definition parse_next_awake_time :: "pylib \<Rightarrow> int \<Rightarrow> string \<Rightarrow> py_error + datetime" where
  "parse_next_awake_time py tz v =
     (let raw = raw_of v
      in case (case fromisoformat py raw of
                 Some parsed \<Rightarrow> Some parsed
               | None \<Rightarrow> try_formats py raw fallback_formats) of
           None \<Rightarrow> Inl ValueError
         | Some parsed \<Rightarrow>
             Inr (if tzinfo parsed = None then parsed\<lparr>tzinfo := Some tz\<rparr> else parsed))"

section \<open>Actions: \<^verbatim>\<open>routines_actions.py\<close>\<close>

definition activate_turn_off_lights_scene :: "daily_routines \<Rightarrow> daily_routines" where
  "activate_turn_off_lights_scene s = turn_on (turn_off_lights_scene s) s"

definition activate_goodmorning_lights_scene :: "daily_routines \<Rightarrow> daily_routines" where
  "activate_goodmorning_lights_scene s =
     (if \<not> truthy (goodmorning_lights_scene s) then log WARNING NoGoodmorningScene s
      else turn_on (goodmorning_lights_scene s) s)"

definition turn_warm_water :: "bool \<Rightarrow> daily_routines \<Rightarrow> daily_routines" where
  "turn_warm_water st s =
     (if st then turn_on (warm_water_entity s) s else turn_off (warm_water_entity s) s)"

section \<open>The preparation scheduler\<close>

definition awake_preparation_tasks :: "daily_routines \<Rightarrow> daily_routines" where
  "awake_preparation_tasks s0 =
     (let s1 = log INFO PerformingPrep s0;
          s2 = s1\<lparr>prep_timer_handle := None\<rparr>;
          s3 = turn_warm_water True s2;
          s4 = (case prep_end_timer_handle s3 of
                  None \<Rightarrow> s3
                | Some h \<Rightarrow> cancel_timer h (log DEBUG CancellingPrepEnd s3));
          (h, s5) = run_in AwakePreparationTasksEnd FIVE_MINUTES_SECONDS s4;
          s6 = s5\<lparr>prep_end_timer_handle := Some h\<rparr>
      in log DEBUG (ScheduledPrepEnd FIVE_MINUTES_SECONDS) s6)"

definition awake_preparation_tasks_end :: "daily_routines \<Rightarrow> daily_routines" where
  "awake_preparation_tasks_end s0 =
     (let s1 = log INFO PerformingPrepEnd s0;
          s2 = turn_warm_water False s1
      in s2\<lparr>prep_end_timer_handle := None\<rparr>)"

text \<open>
  The \<^verbatim>\<open>except ValueError\<close> clause of \<^verbatim>\<open>next_awake_set\<close>: a \<open>ValueError\<close> is
  logged and swallowed, any other exception leaves the handler.
\<close>

definition on_exception :: "py_error \<Rightarrow> string \<Rightarrow> daily_routines \<Rightarrow> daily_routines \<times> py_error option" where
  "on_exception e new s =
     (if e = ValueError then (log ERROR (InvalidDatetime new) s, None) else (s, Some e))"

text \<open>
  \<^verbatim>\<open>next_awake_set\<close>. Of the host's five arguments only \<^verbatim>\<open>new\<close> is read; \<open>now\<close>
  is what \<^verbatim>\<open>datetime.now(timezone.utc)\<close> returns during the call, in microseconds on
  the UTC wall clock. Two aware values are compared as instants, wall clock minus offset;
  comparing the aware current time with a naive value raises \<open>TypeError\<close>. The delay
  \<^verbatim>\<open>int((prep_time - current_time).total_seconds())\<close> is \<open>whole_seconds\<close> of the
  difference in microseconds. The result is the object after the call and the exception
  that left the handler, if one did.
\<close>

definition next_awake_set :: "pylib \<Rightarrow> int \<Rightarrow> string \<Rightarrow> daily_routines \<Rightarrow> daily_routines \<times> py_error option" where
  "next_awake_set py now new s0 =
     (let s1 = log DEBUG (NextAwakeSetMsg new) s0
      in case parse_next_awake_time py (local_tz s1) new of
           Inl e \<Rightarrow> on_exception e new s1
         | Inr next_awake_time \<Rightarrow>
        (case dt_sub_minutes next_awake_time (prep_offset_minutes s1) of
           Inl e \<Rightarrow> on_exception e new s1
         | Inr prep_time \<Rightarrow>
        (let s2 = log DEBUG (CurrentTime now) s1;
             s3 = (case prep_timer_handle s2 of
                     None \<Rightarrow> s2
                   | Some h \<Rightarrow>
                       (cancel_timer h (log DEBUG CancellingPrepTimer s2))\<lparr>prep_timer_handle := None\<rparr>)
         in case tzinfo prep_time of
              None \<Rightarrow> on_exception TypeError new s3
            | Some off \<Rightarrow>
                if now < wall prep_time - off then
                  (let seconds_until_prep = whole_seconds py (wall prep_time - off - now);
                       (h, s4) = run_in AwakePreparationTasks seconds_until_prep s3;
                       s5 = s4\<lparr>prep_timer_handle := Some h\<rparr>
                   in (log INFO (ScheduledPrep seconds_until_prep) s5, None))
                else if now < wall next_awake_time - off then
                  (if prep_end_timer_handle s3 \<noteq> None
                   then (log DEBUG AlreadyRunning s3, None)
                   else (awake_preparation_tasks (log DEBUG WithinWindow s3), None))
                else (log DEBUG (AfterPrepTime now prep_time) s3, None))))"

section \<open>Sleep and awake reactions\<close>

definition goodnight_triggered :: "daily_routines \<Rightarrow> daily_routines" where
  "goodnight_triggered s0 =
     (let s1 = activate_turn_off_lights_scene s0;
          s2 = turn_warm_water False s1
      in log INFO GoodnightExecuted s2)"

definition awake_triggered :: "daily_routines \<Rightarrow> daily_routines" where
  "awake_triggered s0 = log INFO AwakeExecuted (activate_goodmorning_lights_scene s0)"

section \<open>The host delivering events\<close>

text \<open>
  The host calls into the application one event at a time: a change of the next-wake-time
  entity (with the clock reading during the call), a live timer elapsing, and the
  sleep/awake entity turning to \<open>sleep\<close> or to \<open>awake\<close>. A handle that is not live cannot
  elapse. An exception that leaves a handler is caught by the host.
\<close>

datatype event =
    WakeTimeUpdate string int
  | TimerElapsed nat
  | ToSleep
  | ToAwake

fun deliver :: "pylib \<Rightarrow> daily_routines \<Rightarrow> event \<Rightarrow> daily_routines" where
  "deliver py s (WakeTimeUpdate new now) = fst (next_awake_set py now new s)"
| "deliver py s (TimerElapsed h) =
     (case find (\<lambda>t. fst t = h) (live_timers (trace s)) of
        None \<Rightarrow> s
      | Some t \<Rightarrow>
          (case fst (snd t) of
             AwakePreparationTasks \<Rightarrow> awake_preparation_tasks (emit (TimerFired h) s)
           | AwakePreparationTasksEnd \<Rightarrow> awake_preparation_tasks_end (emit (TimerFired h) s)))"
| "deliver py s ToSleep = goodnight_triggered s"
| "deliver py s ToAwake = awake_triggered s"

definition run :: "pylib \<Rightarrow> daily_routines \<Rightarrow> event list \<Rightarrow> daily_routines" where
  "run py s evs = foldl (deliver py) s evs"

section \<open>Example data\<close>

text \<open>
  An excerpt of the library's parsers for running the model on examples: what
  \<^verbatim>\<open>datetime.fromisoformat\<close> and \<^verbatim>\<open>datetime.strptime\<close> return on the strings used
  below (2024-01-01T07:00:00 is 63839689200000000 microseconds after 0001-01-01T00:00:00).
  The only other strings the examples parse are \<open>not-a-date\<close>, which the library rejects
  in every shape, and \<open>2024-1-1 07:00:00\<close>, which \<^verbatim>\<open>fromisoformat\<close> and the first
  \<^verbatim>\<open>strptime\<close> format reject and the second format accepts. The differences of the
  examples are a few hours, where \<^verbatim>\<open>int(td.total_seconds())\<close> is the quotient by 1000000.
\<close>

definition example_lib :: pylib where
  "example_lib =
     \<lparr> fromisoformat = map_of
         [(''2024-01-01T07:00:00+00:00'', \<lparr> wall = 63839689200000000, tzinfo = Some 0 \<rparr>),
          (''2024-01-01T07:10:00+00:00'', \<lparr> wall = 63839689800000000, tzinfo = Some 0 \<rparr>),
          (''2024-01-01T08:00:00+00:00'', \<lparr> wall = 63839692800000000, tzinfo = Some 0 \<rparr>),
          (''2024-01-01T07:00:00'', \<lparr> wall = 63839689200000000, tzinfo = None \<rparr>),
          (''2024-07-01T07:00:00'', \<lparr> wall = 63855414000000000, tzinfo = None \<rparr>),
          (''0001-01-01T00:10:00+00:00'', \<lparr> wall = 600000000, tzinfo = Some 0 \<rparr>)],
       strptime = (\<lambda>raw fmt.
         if raw = ''2024-1-1 07:00:00'' \<and> fmt = ''%Y-%m-%d %H:%M:%S''
         then Some \<lparr> wall = 63839689200000000, tzinfo = None \<rparr>
         else None),
       whole_seconds = (\<lambda>us. us div 1000000),
       int_max_str_digits = 4300 \<rparr>"

definition example_args :: app_args where
  "example_args = map_of
     [(''turn_off_lights_scene'', PStr ''scene.lights_off''),
      (''ww_activate'', PStr ''switch.warm_water''),
      (''awake_state'', PStr ''input_select.awake_state''),
      (''next_awake_time'', PStr ''sensor.next_alarm''),
      (''prep_offset_minutes'', PInt 30),
      (''goodmorning_lights_scene'', PStr ''scene.good_morning'')]"

text \<open>
  The object \<open>initialize\<close> builds from \<open>example_args\<close> when the local timezone is one hour
  east of UTC.
\<close>

definition example_app :: daily_routines where
  "example_app =
     \<lparr> turn_off_lights_scene = PStr ''scene.lights_off'',
       warm_water_entity = PStr ''switch.warm_water'',
       awake_state_entity = PStr ''input_select.awake_state'',
       next_awake_entity = PStr ''sensor.next_alarm'',
       prep_offset_minutes = 30,
       goodmorning_lights_scene = PStr ''scene.good_morning'',
       local_tz = 3600000000,
       prep_timer_handle = None,
       prep_end_timer_handle = None,
       trace =
         [Log INFO Initializing,
          ListenState GoodnightTriggered (PStr ''input_select.awake_state'') (Some ''sleep''),
          ListenState AwakeTriggered (PStr ''input_select.awake_state'') (Some ''awake''),
          ListenState NextAwakeSet (PStr ''sensor.next_alarm'') None,
          Log INFO Initialized],
       next_handle = 0 \<rparr>"

section \<open>Predicates for the properties\<close>

text \<open>The timers a handle attribute stands for: none for \<^verbatim>\<open>None\<close>, one otherwise.\<close>

definition handle_list :: "nat option \<Rightarrow> nat list" where
  "handle_list h = (case h of None \<Rightarrow> [] | Some x \<Rightarrow> [x])"

text \<open>
  At most one live timer for the preparation and at most one for its end, after the host
  has seen the calls \<open>tr\<close>.
\<close>

definition at_most_one_each :: "effect list \<Rightarrow> bool" where
  "at_most_one_each tr =
     (length (live_for AwakePreparationTasks tr) \<le> 1 \<and>
      length (live_for AwakePreparationTasksEnd tr) \<le> 1)"

text \<open>
  The two handle attributes mirror the host: the live preparation timers are exactly the
  one \<^verbatim>\<open>_prep_timer_handle\<close> names, the live preparation-end timers exactly the one
  \<^verbatim>\<open>_prep_end_timer_handle\<close> names, the two handles differ, and both were handed out
  by the host before.
\<close>

definition consistent :: "daily_routines \<Rightarrow> bool" where
  "consistent s =
     (live_for AwakePreparationTasks (trace s) = handle_list (prep_timer_handle s) \<and>
      live_for AwakePreparationTasksEnd (trace s) = handle_list (prep_end_timer_handle s) \<and>
      (case prep_timer_handle s of
         None \<Rightarrow> True
       | Some h \<Rightarrow> h < next_handle s \<and> prep_end_timer_handle s \<noteq> Some h) \<and>
      (case prep_end_timer_handle s of None \<Rightarrow> True | Some h \<Rightarrow> h < next_handle s))"

text \<open>The log line and the host call that cancelling an armed timer adds.\<close>

definition cancel_effects :: "msg \<Rightarrow> nat option \<Rightarrow> effect list" where
  "cancel_effects m h = (case h of None \<Rightarrow> [] | Some x \<Rightarrow> [Log DEBUG m, CancelTimer x])"

text \<open>A configuration value that \<^verbatim>\<open>self.args.get\<close> reads as \<^verbatim>\<open>None\<close>: the key is absent or null.\<close>

definition unset :: "app_args \<Rightarrow> string \<Rightarrow> bool" where
  "unset args key = (dict_get args key = PNone)"

text \<open>
  At most one live timer of each kind at every point of the history: after each prefix
  of the calls the host has seen.
\<close>

definition always_single :: "effect list \<Rightarrow> bool" where
  "always_single tr = list_all at_most_one_each (prefixes tr)"

text \<open>The host calls and steps that change the set of live timers.\<close>

fun timer_effect :: "effect \<Rightarrow> bool" where
  "timer_effect (RunIn cb d h) = True"
| "timer_effect (CancelTimer h) = True"
| "timer_effect (TimerFired h) = True"
| "timer_effect e = False"

text \<open>
  Two states of the example: a wake time of 07:00 UTC announced at 06:00 (the preparation
  is scheduled for 06:30), and the same wake time announced at 06:58 (inside the
  preparation window, so the preparation starts at once).
\<close>

definition example_scheduled :: daily_routines where
  "example_scheduled =
     run example_lib example_app [WakeTimeUpdate ''2024-01-01T07:00:00+00:00'' 63839685600000000]"

definition example_preparing :: daily_routines where
  "example_preparing =
     run example_lib example_app [WakeTimeUpdate ''2024-01-01T07:00:00+00:00'' 63839689080000000]"

text \<open>
  The UTC offset, in microseconds, of a Central European local timezone at a wall-clock
  reading of the year 2024: two hours from 2024-03-31T02:00 until 2024-10-27T03:00, one
  hour otherwise.
\<close>

definition example_zone :: "int \<Rightarrow> int" where
  "example_zone w =
     (if 63847447200000000 \<le> w \<and> w < 63865594800000000 then 7200000000 else 3600000000)"

section \<open>Live timers along a history\<close>


lemmas host_defs = emit_def log_def turn_on_def turn_off_def cancel_timer_def run_in_def
  turn_warm_water_def

lemma live_timers_snoc: "live_timers (tr @ [e]) = host_step (live_timers tr) e"
  by (simp add: live_timers_def)

lemma map_fst_filter_handle:
  "map fst (filter (\<lambda>t. fst t \<noteq> h \<and> P t) L) = filter (\<lambda>x. x \<noteq> h) (map fst (filter P L))"
  by (induction L) auto

lemma live_for_snoc:
  "live_for cb (tr @ [e]) =
     (case e of
        RunIn cb' d h \<Rightarrow> live_for cb tr @ (if cb' = cb then [h] else [])
      | CancelTimer h \<Rightarrow> filter (\<lambda>x. x \<noteq> h) (live_for cb tr)
      | TimerFired h \<Rightarrow> filter (\<lambda>x. x \<noteq> h) (live_for cb tr)
      | _ \<Rightarrow> live_for cb tr)"
  by (cases e) (simp_all add: live_for_def live_timers_snoc map_fst_filter_handle)

lemma live_for_append_Log [simp]: "live_for cb (tr @ [Log lv m]) = live_for cb tr"
  and live_for_append_TurnOn [simp]: "live_for cb (tr @ [TurnOn x]) = live_for cb tr"
  and live_for_append_TurnOff [simp]: "live_for cb (tr @ [TurnOff x]) = live_for cb tr"
  and live_for_append_Listen [simp]: "live_for cb (tr @ [ListenState l x n]) = live_for cb tr"
  and live_for_append_RunIn [simp]:
    "live_for cb (tr @ [RunIn cb' d h]) = live_for cb tr @ (if cb' = cb then [h] else [])"
  and live_for_append_Cancel [simp]:
    "live_for cb (tr @ [CancelTimer h]) = filter (\<lambda>x. x \<noteq> h) (live_for cb tr)"
  and live_for_append_Fired [simp]:
    "live_for cb (tr @ [TimerFired h]) = filter (\<lambda>x. x \<noteq> h) (live_for cb tr)"
  by (simp_all add: live_for_snoc)


lemma always_single_snoc [simp]:
  "always_single (tr @ [e]) = (always_single tr \<and> at_most_one_each (tr @ [e]))"
  by (simp add: always_single_def)

lemma awake_preparation_tasks_keeps:
  assumes "live_for AwakePreparationTasks (trace s) = []"
    and "live_for AwakePreparationTasksEnd (trace s) = handle_list (prep_end_timer_handle s)"
    and "case prep_end_timer_handle s of None \<Rightarrow> True | Some h \<Rightarrow> h < next_handle s"
    and "always_single (trace s)"
  shows "consistent (awake_preparation_tasks s) \<and> always_single (trace (awake_preparation_tasks s))"
  using assms
  by (cases "prep_end_timer_handle s")
    (simp_all add: awake_preparation_tasks_def host_defs consistent_def handle_list_def
      at_most_one_each_def Let_def del: append_assoc)

lemma awake_preparation_tasks_end_keeps:
  assumes "live_for AwakePreparationTasksEnd (trace s) = []"
    and "live_for AwakePreparationTasks (trace s) = handle_list (prep_timer_handle s)"
    and "case prep_timer_handle s of None \<Rightarrow> True | Some h \<Rightarrow> h < next_handle s"
    and "always_single (trace s)"
  shows "consistent (awake_preparation_tasks_end s) \<and> always_single (trace (awake_preparation_tasks_end s))"
  using assms
  by (cases "prep_timer_handle s")
    (simp_all add: awake_preparation_tasks_end_def host_defs consistent_def handle_list_def
      at_most_one_each_def Let_def del: append_assoc)


lemma on_exception_keeps:
  "consistent s \<and> always_single (trace s) \<Longrightarrow>
   consistent (fst (on_exception e new s)) \<and> always_single (trace (fst (on_exception e new s)))"
  by (simp add: on_exception_def host_defs consistent_def at_most_one_each_def handle_list_def
      split: option.splits)

lemma log_keeps:
  "consistent s \<and> always_single (trace s) \<Longrightarrow>
   consistent (log lv m s) \<and> always_single (trace (log lv m s))"
  by (simp add: host_defs consistent_def at_most_one_each_def handle_list_def
      split: option.splits)

lemma cancel_prep_keeps:
  assumes "consistent s \<and> always_single (trace s)"
  shows "consistent (case prep_timer_handle s of
                       None \<Rightarrow> s
                     | Some h \<Rightarrow> (cancel_timer h (log DEBUG CancellingPrepTimer s))\<lparr>prep_timer_handle := None\<rparr>)
         \<and> always_single (trace (case prep_timer_handle s of
                       None \<Rightarrow> s
                     | Some h \<Rightarrow> (cancel_timer h (log DEBUG CancellingPrepTimer s))\<lparr>prep_timer_handle := None\<rparr>))
         \<and> prep_timer_handle (case prep_timer_handle s of
                       None \<Rightarrow> s
                     | Some h \<Rightarrow> (cancel_timer h (log DEBUG CancellingPrepTimer s))\<lparr>prep_timer_handle := None\<rparr>) = None"
  using assms
  by (cases "prep_timer_handle s"; cases "prep_end_timer_handle s")
    (auto simp add: host_defs consistent_def handle_list_def at_most_one_each_def
      simp del: append_assoc)

lemma arm_prep_keeps:
  assumes "consistent s \<and> always_single (trace s)" and "prep_timer_handle s = None"
  shows "consistent (log lv m ((snd (run_in AwakePreparationTasks d s))\<lparr>prep_timer_handle := Some (fst (run_in AwakePreparationTasks d s))\<rparr>))
    \<and> always_single (trace (log lv m ((snd (run_in AwakePreparationTasks d s))\<lparr>prep_timer_handle := Some (fst (run_in AwakePreparationTasks d s))\<rparr>)))"
  using assms
  by (cases "prep_end_timer_handle s")
    (auto simp add: host_defs consistent_def handle_list_def at_most_one_each_def
      simp del: append_assoc)

lemma consistent_prep_begin:
  assumes "consistent s \<and> always_single (trace s)" and "prep_timer_handle s = None"
  shows "consistent (awake_preparation_tasks (log lv m s)) \<and>
         always_single (trace (awake_preparation_tasks (log lv m s)))"
proof (rule awake_preparation_tasks_keeps)
  show "live_for AwakePreparationTasks (trace (log lv m s)) = []"
    using assms by (simp add: host_defs consistent_def handle_list_def)
  show "live_for AwakePreparationTasksEnd (trace (log lv m s)) =
        handle_list (prep_end_timer_handle (log lv m s))"
    using assms by (simp add: host_defs consistent_def)
  show "case prep_end_timer_handle (log lv m s) of None \<Rightarrow> True | Some h \<Rightarrow> h < next_handle (log lv m s)"
    using assms by (simp add: host_defs consistent_def split: option.splits)
  show "always_single (trace (log lv m s))"
    using assms by (simp add: host_defs consistent_def at_most_one_each_def handle_list_def
      split: option.splits)
qed

lemma next_awake_set_keeps:
  assumes "consistent s \<and> always_single (trace s)"
  shows "consistent (fst (next_awake_set py now new s)) \<and>
         always_single (trace (fst (next_awake_set py now new s)))"
proof -
  let ?s1 = "log DEBUG (NextAwakeSetMsg new) s"
  have s1: "consistent ?s1 \<and> always_single (trace ?s1)"
    using assms by (rule log_keeps)
  show ?thesis
  proof (cases "parse_next_awake_time py (local_tz ?s1) new")
    case (Inl e)
    then show ?thesis
      using on_exception_keeps [OF s1] by (simp add: next_awake_set_def)
  next
    case (Inr wake)
    show ?thesis
    proof (cases "dt_sub_minutes wake (prep_offset_minutes ?s1)")
      case (Inl e)
      then show ?thesis
        using Inr on_exception_keeps [OF s1] by (simp add: next_awake_set_def)
    next
      case prep: (Inr prep_time)
      let ?s2 = "log DEBUG (CurrentTime now) ?s1"
      let ?s3 = "case prep_timer_handle ?s2 of
                   None \<Rightarrow> ?s2
                 | Some h \<Rightarrow> (cancel_timer h (log DEBUG CancellingPrepTimer ?s2))\<lparr>prep_timer_handle := None\<rparr>"
      have s2: "consistent ?s2 \<and> always_single (trace ?s2)"
        using s1 by (rule log_keeps)
      have s3: "consistent ?s3 \<and> always_single (trace ?s3)" and none: "prep_timer_handle ?s3 = None"
        using cancel_prep_keeps [OF s2] by blast+
      have unfold: "next_awake_set py now new s =
         (case tzinfo prep_time of
              None \<Rightarrow> on_exception TypeError new ?s3
            | Some off \<Rightarrow>
                if now < wall prep_time - off then
                  (let seconds_until_prep = whole_seconds py (wall prep_time - off - now);
                       (h, s4) = run_in AwakePreparationTasks seconds_until_prep ?s3;
                       s5 = s4\<lparr>prep_timer_handle := Some h\<rparr>
                   in (log INFO (ScheduledPrep seconds_until_prep) s5, None))
                else if now < wall wake - off then
                  (if prep_end_timer_handle ?s3 \<noteq> None
                   then (log DEBUG AlreadyRunning ?s3, None)
                   else (awake_preparation_tasks (log DEBUG WithinWindow ?s3), None))
                else (log DEBUG (AfterPrepTime now prep_time) ?s3, None))"
        using Inr prep by (simp add: next_awake_set_def Let_def)
      show ?thesis
      proof (cases "tzinfo prep_time")
        case None
        then show ?thesis
          using on_exception_keeps [OF s3] by (simp add: unfold)
      next
        case (Some off)
        then show ?thesis
          using arm_prep_keeps [OF s3 none] log_keeps [OF s3] consistent_prep_begin [OF s3 none]
          by (simp add: unfold Let_def split_beta)
      qed
    qed
  qed
qed


lemma find_live_for:
  assumes "find (\<lambda>t. fst t = h) (live_timers tr) = Some t"
  shows "h \<in> set (live_for (fst (snd t)) tr)"
proof -
  from assms have "fst t = h" and "t \<in> set (live_timers tr)"
    by (auto simp: find_Some_iff)
  then show ?thesis
    by (force simp: live_for_def)
qed

lemma timer_elapsed_keeps:
  assumes inv: "consistent s \<and> always_single (trace s)"
    and found: "find (\<lambda>t. fst t = h) (live_timers (trace s)) = Some t"
  shows "consistent (deliver py s (TimerElapsed h)) \<and>
         always_single (trace (deliver py s (TimerElapsed h)))"
proof (cases "fst (snd t)")
  case AwakePreparationTasks
  with find_live_for [OF found] inv have h: "prep_timer_handle s = Some h"
    by (auto simp: consistent_def handle_list_def split: option.splits)
  have "consistent (awake_preparation_tasks (emit (TimerFired h) s)) \<and>
        always_single (trace (awake_preparation_tasks (emit (TimerFired h) s)))"
    using inv h
    by (intro awake_preparation_tasks_keeps)
      (auto simp: emit_def consistent_def handle_list_def at_most_one_each_def
        split: option.splits)
  then show ?thesis
    using found AwakePreparationTasks by simp
next
  case AwakePreparationTasksEnd
  with find_live_for [OF found] inv have h: "prep_end_timer_handle s = Some h"
    by (auto simp: consistent_def handle_list_def split: option.splits)
  have "consistent (awake_preparation_tasks_end (emit (TimerFired h) s)) \<and>
        always_single (trace (awake_preparation_tasks_end (emit (TimerFired h) s)))"
    using inv h
    by (intro awake_preparation_tasks_end_keeps)
      (auto simp: emit_def consistent_def handle_list_def at_most_one_each_def
        split: option.splits)
  then show ?thesis
    using found AwakePreparationTasksEnd by simp
qed

lemma goodnight_triggered_eq:
  "goodnight_triggered s =
     s\<lparr>trace := trace s @
         [TurnOn (turn_off_lights_scene s), TurnOff (warm_water_entity s),
          Log INFO GoodnightExecuted]\<rparr>"
  by (simp add: goodnight_triggered_def activate_turn_off_lights_scene_def host_defs)

lemma awake_triggered_eq:
  "awake_triggered s =
     s\<lparr>trace := trace s @
         [if truthy (goodmorning_lights_scene s) then TurnOn (goodmorning_lights_scene s)
          else Log WARNING NoGoodmorningScene,
          Log INFO AwakeExecuted]\<rparr>"
  by (simp add: awake_triggered_def activate_goodmorning_lights_scene_def host_defs)

lemma deliver_keeps:
  assumes inv: "consistent s \<and> always_single (trace s)"
  shows "consistent (deliver py s ev) \<and> always_single (trace (deliver py s ev))"
proof (cases ev)
  case (WakeTimeUpdate new now)
  then show ?thesis
    using next_awake_set_keeps [OF inv] by simp
next
  case (TimerElapsed h)
  show ?thesis
  proof (cases "find (\<lambda>t. fst t = h) (live_timers (trace s))")
    case None
    then show ?thesis
      using inv TimerElapsed by simp
  next
    case (Some t)
    then show ?thesis
      using timer_elapsed_keeps [OF inv] TimerElapsed by simp
  qed
next
  case ToSleep
  then show ?thesis
    using inv
    by (simp add: goodnight_triggered_def activate_turn_off_lights_scene_def host_defs
        consistent_def at_most_one_each_def handle_list_def split: option.splits
        del: append_assoc)
next
  case ToAwake
  then show ?thesis
    using inv
    by (simp add: awake_triggered_def activate_goodmorning_lights_scene_def host_defs
        consistent_def at_most_one_each_def handle_list_def split: option.splits
        del: append_assoc)
qed

lemma run_keeps:
  "consistent s \<and> always_single (trace s) \<Longrightarrow>
   consistent (run py s evs) \<and> always_single (trace (run py s evs))"
proof (induction evs arbitrary: s)
  case Nil
  then show ?case by (simp add: run_def)
next
  case (Cons ev evs)
  from Cons.IH [OF deliver_keeps [OF Cons.prems]] show ?case
    by (simp add: run_def)
qed



lemma quiet_trace:
  "list_all (\<lambda>e. \<not> timer_effect e) tr \<Longrightarrow> (\<forall>cb. live_for cb tr = []) \<and> always_single tr"
proof (induction tr rule: rev_induct)
  case Nil
  then show ?case
    by (simp add: live_for_def live_timers_def always_single_def at_most_one_each_def)
next
  case (snoc e tr)
  then have "\<forall>cb. live_for cb tr = []" "always_single tr" "\<not> timer_effect e"
    by simp_all
  then show ?case
    by (cases e) (simp_all add: at_most_one_each_def)
qed

lemma get_required_arg_quiet:
  "list_all (\<lambda>e. \<not> timer_effect e) tr \<Longrightarrow>
   list_all (\<lambda>e. \<not> timer_effect e) (fst (get_required_arg args key aliases tr))"
  by (simp add: get_required_arg_def Let_def split: option.splits)

lemma get_int_arg_quiet:
  "list_all (\<lambda>e. \<not> timer_effect e) tr \<Longrightarrow>
   list_all (\<lambda>e. \<not> timer_effect e) (fst (get_int_arg py args key dflt tr))"
  by (simp add: get_int_arg_def Let_def split: option.splits sum.splits)

lemma initialize_quiet:
  assumes "initialize py tz args = Inr s"
  shows "list_all (\<lambda>e. \<not> timer_effect e) (trace s) \<and>
         prep_timer_handle s = None \<and> prep_end_timer_handle s = None"
proof -
  let ?g1 = "get_required_arg args ''turn_off_lights_scene'' [''turn_off_ligts_scene''] [Log INFO Initializing]"
  let ?g2 = "get_required_arg args ''ww_activate'' [] (fst ?g1)"
  let ?g3 = "get_required_arg args ''awake_state'' [] (fst ?g2)"
  let ?g4 = "get_required_arg args ''next_awake_time'' [] (fst ?g3)"
  let ?g5 = "get_int_arg py args ''prep_offset_minutes'' PNone (fst ?g4)"
  have q1: "list_all (\<lambda>e. \<not> timer_effect e) (fst ?g1)"
    by (rule get_required_arg_quiet) simp
  have q5: "list_all (\<lambda>e. \<not> timer_effect e) (fst ?g5)"
    by (intro get_int_arg_quiet get_required_arg_quiet q1)
  from assms have "trace s = fst ?g5 @
                  [ListenState GoodnightTriggered (awake_state_entity s) (Some ''sleep''),
                   ListenState AwakeTriggered (awake_state_entity s) (Some ''awake''),
                   ListenState NextAwakeSet (next_awake_entity s) None,
                   Log INFO Initialized]
        \<and> prep_timer_handle s = None \<and> prep_end_timer_handle s = None"
    by (auto simp: initialize_def split: prod.splits sum.splits)
  with q5 show ?thesis by simp
qed

lemma initialize_consistent:
  assumes "initialize py tz args = Inr s"
  shows "consistent s \<and> always_single (trace s)"
  using initialize_quiet [OF assms] quiet_trace [of "trace s"]
  by (simp add: consistent_def handle_list_def)

section \<open>What each handler does\<close>

lemma awake_preparation_tasks_eq:
  "awake_preparation_tasks s =
     s\<lparr>prep_timer_handle := None,
       prep_end_timer_handle := Some (next_handle s),
       trace := trace s @ [Log INFO PerformingPrep, TurnOn (warm_water_entity s)] @
                cancel_effects CancellingPrepEnd (prep_end_timer_handle s) @
                [RunIn AwakePreparationTasksEnd 300 (next_handle s),
                 Log DEBUG (ScheduledPrepEnd 300)],
       next_handle := Suc (next_handle s)\<rparr>"
  by (cases "prep_end_timer_handle s")
    (simp_all add: awake_preparation_tasks_def host_defs cancel_effects_def
      FIVE_MINUTES_SECONDS_def)

lemma awake_preparation_tasks_end_eq:
  "awake_preparation_tasks_end s =
     s\<lparr>prep_end_timer_handle := None,
       trace := trace s @ [Log INFO PerformingPrepEnd, TurnOff (warm_water_entity s)]\<rparr>"
  by (simp add: awake_preparation_tasks_end_def host_defs)

lemma dt_sub_minutes_Inr:
  "dt_sub_minutes d m = Inr p \<Longrightarrow> wall p = wall d - m * 60000000 \<and> tzinfo p = tzinfo d"
  by (auto simp: dt_sub_minutes_def Let_def split: if_splits)

lemma parse_next_awake_time_Inl:
  "parse_next_awake_time py tz v = Inl e \<Longrightarrow> e = ValueError"
  by (auto simp: parse_next_awake_time_def Let_def split: option.splits)

lemma parse_next_awake_time_aware:
  "parse_next_awake_time py tz v = Inr d \<Longrightarrow> tzinfo d \<noteq> None"
  by (auto simp: parse_next_awake_time_def Let_def split: option.splits if_splits)

lemma next_awake_set_invalid:
  assumes "parse_next_awake_time py (local_tz s) new = Inl e"
  shows "next_awake_set py now new s =
           (s\<lparr>trace := trace s @
                [Log DEBUG (NextAwakeSetMsg new), Log ERROR (InvalidDatetime new)]\<rparr>, None)"
  using assms parse_next_awake_time_Inl [OF assms]
  by (simp add: next_awake_set_def on_exception_def host_defs)

lemma next_awake_set_parsed:
  assumes "parse_next_awake_time py (local_tz s) new = Inr wake"
    and "dt_sub_minutes wake (prep_offset_minutes s) = Inr prep"
    and "tzinfo wake = Some off"
  shows "next_awake_set py now new s =
    (if now < wall prep - off then
       (s\<lparr>prep_timer_handle := Some (next_handle s),
          trace := trace s @ [Log DEBUG (NextAwakeSetMsg new), Log DEBUG (CurrentTime now)] @
            cancel_effects CancellingPrepTimer (prep_timer_handle s) @
            [RunIn AwakePreparationTasks (whole_seconds py (wall prep - off - now)) (next_handle s),
             Log INFO (ScheduledPrep (whole_seconds py (wall prep - off - now)))],
          next_handle := Suc (next_handle s)\<rparr>, None)
     else if now < wall wake - off then
       (if prep_end_timer_handle s \<noteq> None then
          (s\<lparr>prep_timer_handle := None,
             trace := trace s @ [Log DEBUG (NextAwakeSetMsg new), Log DEBUG (CurrentTime now)] @
               cancel_effects CancellingPrepTimer (prep_timer_handle s) @
               [Log DEBUG AlreadyRunning]\<rparr>, None)
        else
          (awake_preparation_tasks
             (s\<lparr>prep_timer_handle := None,
                trace := trace s @ [Log DEBUG (NextAwakeSetMsg new), Log DEBUG (CurrentTime now)] @
                  cancel_effects CancellingPrepTimer (prep_timer_handle s) @
                  [Log DEBUG WithinWindow]\<rparr>), None))
     else
       (s\<lparr>prep_timer_handle := None,
          trace := trace s @ [Log DEBUG (NextAwakeSetMsg new), Log DEBUG (CurrentTime now)] @
            cancel_effects CancellingPrepTimer (prep_timer_handle s) @
            [Log DEBUG (AfterPrepTime now prep)]\<rparr>, None))"
  using assms dt_sub_minutes_Inr [OF assms(2)]
  by (cases "prep_timer_handle s")
    (simp_all add: next_awake_set_def host_defs cancel_effects_def Let_def
      awake_preparation_tasks_eq)


section \<open>The example, evaluated\<close>

lemma example_whole_seconds: "whole_seconds example_lib us = us div 1000000"
  by (simp add: example_lib_def)

lemma initialize_example: "initialize example_lib 3600000000 example_args = Inr example_app"
  by (simp add: initialize_def example_args_def example_app_def get_required_arg_def
      get_int_arg_def dict_get_def)

lemma example_parse_0700:
  "parse_next_awake_time example_lib tz ''2024-01-01T07:00:00+00:00'' =
     Inr \<lparr>wall = 63839689200000000, tzinfo = Some 0\<rparr>"
  by (simp add: parse_next_awake_time_def raw_of_def strip_def is_space_def example_lib_def)

lemma example_parse_0710:
  "parse_next_awake_time example_lib tz ''2024-01-01T07:10:00+00:00'' =
     Inr \<lparr>wall = 63839689800000000, tzinfo = Some 0\<rparr>"
  by (simp add: parse_next_awake_time_def raw_of_def strip_def is_space_def example_lib_def)

lemma example_parse_naive:
  "parse_next_awake_time example_lib tz ''2024-01-01T07:00:00'' =
     Inr \<lparr>wall = 63839689200000000, tzinfo = Some tz\<rparr>"
  by (simp add: parse_next_awake_time_def raw_of_def strip_def is_space_def example_lib_def)

lemma example_parse_0800:
  "parse_next_awake_time example_lib tz ''2024-01-01T08:00:00+00:00'' =
     Inr \<lparr>wall = 63839692800000000, tzinfo = Some 0\<rparr>"
  by (simp add: parse_next_awake_time_def raw_of_def strip_def is_space_def example_lib_def)

lemma example_parse_invalid:
  "parse_next_awake_time example_lib tz ''not-a-date'' = Inl ValueError"
  by (simp add: parse_next_awake_time_def raw_of_def strip_def is_space_def example_lib_def
      fallback_formats_def)

lemma example_scheduled_eq:
  "example_scheduled =
     example_app\<lparr>prep_timer_handle := Some 0,
       trace := trace example_app @
         [Log DEBUG (NextAwakeSetMsg ''2024-01-01T07:00:00+00:00''),
          Log DEBUG (CurrentTime 63839685600000000),
          RunIn AwakePreparationTasks 1800 0,
          Log INFO (ScheduledPrep 1800)],
       next_handle := 1\<rparr>"
  by (simp add: example_scheduled_def run_def
      next_awake_set_parsed [OF example_parse_0700, of _ "\<lparr>wall = 63839687400000000, tzinfo = Some 0\<rparr>" 0]
      dt_sub_minutes_def example_whole_seconds example_app_def cancel_effects_def)

lemma example_preparing_eq:
  "example_preparing =
     example_app\<lparr>prep_end_timer_handle := Some 0,
       trace := trace example_app @
         [Log DEBUG (NextAwakeSetMsg ''2024-01-01T07:00:00+00:00''),
          Log DEBUG (CurrentTime 63839689080000000),
          Log DEBUG WithinWindow,
          Log INFO PerformingPrep,
          TurnOn (PStr ''switch.warm_water''),
          RunIn AwakePreparationTasksEnd 300 0,
          Log DEBUG (ScheduledPrepEnd 300)],
       next_handle := 1\<rparr>"
  by (simp add: example_preparing_def run_def
      next_awake_set_parsed [OF example_parse_0700, of _ "\<lparr>wall = 63839687400000000, tzinfo = Some 0\<rparr>" 0]
      dt_sub_minutes_def example_whole_seconds example_app_def cancel_effects_def awake_preparation_tasks_eq)

section \<open>A malformed wake time\<close>

text \<open>
  C4. When the string of a wake-time update does not parse, \<open>next_awake_set\<close> returns the
  object as it was, both handles included, with two log lines added: the debug line of
  every call and an error line. It calls neither the scheduler nor a device, so the live
  timers are the same, and no exception leaves the handler.
\<close>
theorem malformed_wake_time_ignored:
  assumes "parse_next_awake_time py (local_tz s) new = Inl e"
  shows "next_awake_set py now new s =
           (s\<lparr>trace := trace s @
                [Log DEBUG (NextAwakeSetMsg new), Log ERROR (InvalidDatetime new)]\<rparr>, None)
         \<and> live_timers (trace (fst (next_awake_set py now new s))) = live_timers (trace s)"
  by (simp add: next_awake_set_invalid [OF assms] live_timers_def)

theorem malformed_wake_time_ignored_witness:
  "parse_next_awake_time example_lib (local_tz example_scheduled) ''not-a-date'' = Inl ValueError
   \<and> next_awake_set example_lib 63839685660000000 ''not-a-date'' example_scheduled =
       (example_scheduled\<lparr>trace := trace example_scheduled @
          [Log DEBUG (NextAwakeSetMsg ''not-a-date''), Log ERROR (InvalidDatetime ''not-a-date'')]\<rparr>,
        None)
   \<and> prep_timer_handle (fst (next_awake_set example_lib 63839685660000000 ''not-a-date'' example_scheduled)) = Some 0
   \<and> live_timers (trace (fst (next_awake_set example_lib 63839685660000000 ''not-a-date'' example_scheduled)))
       = [(0, AwakePreparationTasks, 1800)]"
  using malformed_wake_time_ignored [where py = example_lib and s = example_scheduled
      and new = "''not-a-date''" and now = 63839685660000000, OF example_parse_invalid]
  by (simp add: example_parse_invalid)
    (simp add: example_scheduled_eq example_app_def live_timers_def)

section \<open>Live timers after a handler\<close>

lemma live_timers_append: "live_timers (tr @ es) = foldl host_step (live_timers tr) es"
  by (simp add: live_timers_def)

lemma filter_single_handle:
  assumes "map fst (filter P L) = [h]"
  shows "filter (\<lambda>t. fst t \<noteq> h \<and> P t) L = []"
proof -
  from assms obtain x where x: "filter P L = [x]" "fst x = h"
    by (cases "filter P L") simp_all
  have "filter (\<lambda>t. fst t \<noteq> h \<and> P t) L = filter (\<lambda>t. fst t \<noteq> h) (filter P L)"
    by (simp add: conj_commute)
  also have "\<dots> = []"
    by (simp only: x filter.simps) simp
  finally show ?thesis .
qed


lemma prep_end_timers_after_begin:
  assumes "live_for AwakePreparationTasksEnd (trace s) = handle_list (prep_end_timer_handle s)"
  shows "filter (\<lambda>t. fst (snd t) = AwakePreparationTasksEnd)
          (live_timers (trace (awake_preparation_tasks s))) =
        [(next_handle s, AwakePreparationTasksEnd, 300)]"
proof (cases "prep_end_timer_handle s")
  case None
  with assms have "filter (\<lambda>t. fst (snd t) = AwakePreparationTasksEnd) (live_timers (trace s)) = []"
    by (simp add: live_for_def handle_list_def)
  with None show ?thesis
    by (simp add: awake_preparation_tasks_eq cancel_effects_def live_timers_append)
next
  case (Some h)
  with assms have "map fst (filter (\<lambda>t. fst (snd t) = AwakePreparationTasksEnd) (live_timers (trace s))) = [h]"
    by (simp add: live_for_def handle_list_def)
  from filter_single_handle [OF this] Some show ?thesis
    by (simp add: awake_preparation_tasks_eq cancel_effects_def live_timers_append)
qed

section \<open>The sleep reaction\<close>

text \<open>
  C8. \<open>goodnight_triggered\<close>, the handler of every change of the sleep/awake entity to \<open>sleep\<close>,
  turns the lights-off scene on and then the warm water off, whatever the state, and logs one
  line. Nothing else of the object changes: both timer handles are as before, and so are the
  timers live in the host, since the handler neither arms nor cancels one.
\<close>
theorem goodnight_leaves_timers:
  "goodnight_triggered s =
     s\<lparr>trace := trace s @
         [TurnOn (turn_off_lights_scene s), TurnOff (warm_water_entity s),
          Log INFO GoodnightExecuted]\<rparr>
   \<and> live_timers (trace (goodnight_triggered s)) = live_timers (trace s)
   \<and> deliver py s ToSleep = goodnight_triggered s"
  by (simp add: goodnight_triggered_eq live_timers_append)

theorem goodnight_leaves_timers_witness:
  "goodnight_triggered example_preparing =
     example_preparing\<lparr>trace := trace example_preparing @
         [TurnOn (PStr ''scene.lights_off''), TurnOff (PStr ''switch.warm_water''),
          Log INFO GoodnightExecuted]\<rparr>
   \<and> prep_end_timer_handle (goodnight_triggered example_preparing) = Some 0
   \<and> live_timers (trace (goodnight_triggered example_preparing)) = [(0, AwakePreparationTasksEnd, 300)]"
  using goodnight_leaves_timers [of example_preparing example_lib]
  by (simp add: example_preparing_eq example_app_def live_timers_def)

section \<open>Preparation begin and preparation end\<close>

text \<open>
  C3. Every call of \<open>awake_preparation_tasks\<close> turns the warm water on, cancels the timer
  \<^verbatim>\<open>_prep_end_timer_handle\<close> names if there is one, arms a new preparation-end timer
  for 300 seconds and stores its handle; when the handle names the live preparation-end
  timers (as it does in every reachable state), the new timer is the only one afterwards.
  Every call of \<open>awake_preparation_tasks_end\<close> turns the warm water off and sets the handle
  to \<^verbatim>\<open>None\<close>.
\<close>
theorem preparation_begin_and_end:
  "awake_preparation_tasks s =
     s\<lparr>prep_timer_handle := None,
       prep_end_timer_handle := Some (next_handle s),
       trace := trace s @ [Log INFO PerformingPrep, TurnOn (warm_water_entity s)] @
                cancel_effects CancellingPrepEnd (prep_end_timer_handle s) @
                [RunIn AwakePreparationTasksEnd 300 (next_handle s),
                 Log DEBUG (ScheduledPrepEnd 300)],
       next_handle := Suc (next_handle s)\<rparr>
   \<and> (live_for AwakePreparationTasksEnd (trace s) = handle_list (prep_end_timer_handle s) \<longrightarrow>
        filter (\<lambda>t. fst (snd t) = AwakePreparationTasksEnd)
          (live_timers (trace (awake_preparation_tasks s))) =
        [(next_handle s, AwakePreparationTasksEnd, 300)])
   \<and> awake_preparation_tasks_end s =
     s\<lparr>prep_end_timer_handle := None,
       trace := trace s @ [Log INFO PerformingPrepEnd, TurnOff (warm_water_entity s)]\<rparr>"
proof (intro conjI impI)
  show "awake_preparation_tasks s =
     s\<lparr>prep_timer_handle := None,
       prep_end_timer_handle := Some (next_handle s),
       trace := trace s @ [Log INFO PerformingPrep, TurnOn (warm_water_entity s)] @
                cancel_effects CancellingPrepEnd (prep_end_timer_handle s) @
                [RunIn AwakePreparationTasksEnd 300 (next_handle s),
                 Log DEBUG (ScheduledPrepEnd 300)],
       next_handle := Suc (next_handle s)\<rparr>"
    by (rule awake_preparation_tasks_eq)
  show "awake_preparation_tasks_end s =
     s\<lparr>prep_end_timer_handle := None,
       trace := trace s @ [Log INFO PerformingPrepEnd, TurnOff (warm_water_entity s)]\<rparr>"
    by (rule awake_preparation_tasks_end_eq)
  show "filter (\<lambda>t. fst (snd t) = AwakePreparationTasksEnd)
          (live_timers (trace (awake_preparation_tasks s))) =
        [(next_handle s, AwakePreparationTasksEnd, 300)]"
    if "live_for AwakePreparationTasksEnd (trace s) = handle_list (prep_end_timer_handle s)"
    using that by (rule prep_end_timers_after_begin)
qed

theorem preparation_begin_and_end_witness:
  "live_for AwakePreparationTasksEnd (trace example_preparing) =
     handle_list (prep_end_timer_handle example_preparing)
   \<and> prep_end_timer_handle example_preparing = Some 0
   \<and> trace (awake_preparation_tasks example_preparing) =
       trace example_preparing @
       [Log INFO PerformingPrep, TurnOn (PStr ''switch.warm_water''),
        Log DEBUG CancellingPrepEnd, CancelTimer 0,
        RunIn AwakePreparationTasksEnd 300 1, Log DEBUG (ScheduledPrepEnd 300)]
   \<and> live_timers (trace (awake_preparation_tasks example_preparing)) =
       [(1, AwakePreparationTasksEnd, 300)]
   \<and> prep_end_timer_handle (awake_preparation_tasks example_preparing) = Some 1
   \<and> trace (awake_preparation_tasks_end example_preparing) =
       trace example_preparing @
       [Log INFO PerformingPrepEnd, TurnOff (PStr ''switch.warm_water'')]
   \<and> prep_end_timer_handle (awake_preparation_tasks_end example_preparing) = None"
  using preparation_begin_and_end [of example_preparing]
  by (simp add: example_preparing_eq example_app_def live_timers_def live_for_def
      handle_list_def cancel_effects_def)

section \<open>Reachable states\<close>

lemma initialize_goodmorning:
  assumes "initialize py tz args = Inr s"
  shows "goodmorning_lights_scene s = dict_get args ''goodmorning_lights_scene''"
  using assms unfolding initialize_def
  by (simp split: prod.splits sum.splits) auto

lemma reachable_consistent:
  assumes "initialize py tz args = Inr s0"
  shows "consistent (run py s0 evs) \<and> always_single (trace (run py s0 evs))"
  by (rule run_keeps [OF initialize_consistent [OF assms]])

lemma consistent_live_end:
  "consistent s \<Longrightarrow> (live_for AwakePreparationTasksEnd (trace s) = []) = (prep_end_timer_handle s = None)"
  by (cases "prep_end_timer_handle s") (simp_all add: consistent_def handle_list_def)

lemma example_app_run: "example_app = run example_lib example_app []"
  by (simp add: run_def)

lemma example_live_scheduled:
  "live_timers (trace example_scheduled) = [(0, AwakePreparationTasks, 1800)]"
  by (simp add: example_scheduled_eq example_app_def live_timers_def)

lemma example_live_preparing:
  "live_timers (trace example_preparing) = [(0, AwakePreparationTasksEnd, 300)]"
  by (simp add: example_preparing_eq example_app_def live_timers_def)

section \<open>The awake reaction\<close>

text \<open>
  C10. \<open>activate_goodmorning_lights_scene\<close> tests the truth value of the configured scene,
  not the presence of the key. So a scene configured with a falsy value such as the empty
  string gives what an unconfigured scene gives (\<open>initialize\<close> stores \<^verbatim>\<open>None\<close> for an
  absent key, and \<^verbatim>\<open>None\<close> is falsy): a warning is logged and no device is touched.
  For every truthy value the scene is turned on.
\<close>
theorem goodmorning_scene_falsy:
  "(\<not> truthy (goodmorning_lights_scene s) \<longrightarrow>
      awake_triggered s =
        s\<lparr>trace := trace s @ [Log WARNING NoGoodmorningScene, Log INFO AwakeExecuted]\<rparr>)
   \<and> (truthy (goodmorning_lights_scene s) \<longrightarrow>
      awake_triggered s =
        s\<lparr>trace := trace s @ [TurnOn (goodmorning_lights_scene s), Log INFO AwakeExecuted]\<rparr>)
   \<and> (initialize py tz args = Inr s \<longrightarrow>
      goodmorning_lights_scene s =
        (case args ''goodmorning_lights_scene'' of None \<Rightarrow> PNone | Some v \<Rightarrow> v))
   \<and> \<not> truthy PNone \<and> \<not> truthy (PStr '''')"
  using initialize_goodmorning [of py tz args s]
  by (simp add: awake_triggered_eq dict_get_def)

theorem goodmorning_scene_falsy_witness:
  "initialize example_lib 3600000000 (example_args(''goodmorning_lights_scene'' \<mapsto> PStr '''')) =
     Inr (example_app\<lparr>goodmorning_lights_scene := PStr ''''\<rparr>)
   \<and> \<not> truthy (goodmorning_lights_scene (example_app\<lparr>goodmorning_lights_scene := PStr ''''\<rparr>))
   \<and> awake_triggered (example_app\<lparr>goodmorning_lights_scene := PStr ''''\<rparr>) =
       example_app\<lparr>goodmorning_lights_scene := PStr '''',
         trace := trace example_app @ [Log WARNING NoGoodmorningScene, Log INFO AwakeExecuted]\<rparr>
   \<and> truthy (goodmorning_lights_scene example_app)
   \<and> awake_triggered example_app =
       example_app\<lparr>trace := trace example_app @
         [TurnOn (PStr ''scene.good_morning''), Log INFO AwakeExecuted]\<rparr>"
  using goodmorning_scene_falsy [of "example_app\<lparr>goodmorning_lights_scene := PStr ''''\<rparr>"
      example_lib 3600000000 "example_args(''goodmorning_lights_scene'' \<mapsto> PStr '''')"]
    goodmorning_scene_falsy [of example_app example_lib 3600000000 example_args]
  by (simp add: initialize_def example_args_def example_app_def get_required_arg_def
      get_int_arg_def dict_get_def)

section \<open>A wake-time update inside the preparation window\<close>

text \<open>
  C2. In every state the application can reach, when the update parses and
  \<open>prep_instant \<le> now < wake_instant\<close>: if a preparation-end timer is live, \<open>next_awake_set\<close>
  does not start the preparation (it only cancels an armed preparation timer and logs);
  otherwise it runs the preparation-begin action inside the call, exactly once: one more
  \<open>PerformingPrep\<close> line, one \<open>TurnOn\<close> of the warm water, one new preparation-end timer.
\<close>
theorem update_inside_window:
  assumes "initialize py tz args = Inr s0" and "s = run py s0 evs"
    and "parse_next_awake_time py (local_tz s) new = Inr wake"
    and "dt_sub_minutes wake (prep_offset_minutes s) = Inr prep"
    and "tzinfo wake = Some off"
    and "wall prep - off \<le> now" and "now < wall wake - off"
  shows "(live_for AwakePreparationTasksEnd (trace s) \<noteq> [] \<longrightarrow>
            next_awake_set py now new s =
              (s\<lparr>prep_timer_handle := None,
                 trace := trace s @ [Log DEBUG (NextAwakeSetMsg new), Log DEBUG (CurrentTime now)] @
                   cancel_effects CancellingPrepTimer (prep_timer_handle s) @
                   [Log DEBUG AlreadyRunning]\<rparr>, None)
            \<and> count_list (trace (fst (next_awake_set py now new s))) (Log INFO PerformingPrep) =
                count_list (trace s) (Log INFO PerformingPrep))
       \<and> (live_for AwakePreparationTasksEnd (trace s) = [] \<longrightarrow>
            next_awake_set py now new s =
              (s\<lparr>prep_timer_handle := None,
                 prep_end_timer_handle := Some (next_handle s),
                 trace := trace s @ [Log DEBUG (NextAwakeSetMsg new), Log DEBUG (CurrentTime now)] @
                   cancel_effects CancellingPrepTimer (prep_timer_handle s) @
                   [Log DEBUG WithinWindow, Log INFO PerformingPrep, TurnOn (warm_water_entity s),
                    RunIn AwakePreparationTasksEnd 300 (next_handle s),
                    Log DEBUG (ScheduledPrepEnd 300)],
                 next_handle := Suc (next_handle s)\<rparr>, None)
            \<and> count_list (trace (fst (next_awake_set py now new s))) (Log INFO PerformingPrep) =
                count_list (trace s) (Log INFO PerformingPrep) + 1)"
proof -
  have c: "consistent s"
    using reachable_consistent [OF assms(1)] assms(2) by simp
  note live = consistent_live_end [OF c]
  have eq: "next_awake_set py now new s =
       (if prep_end_timer_handle s \<noteq> None then
          (s\<lparr>prep_timer_handle := None,
             trace := trace s @ [Log DEBUG (NextAwakeSetMsg new), Log DEBUG (CurrentTime now)] @
               cancel_effects CancellingPrepTimer (prep_timer_handle s) @
               [Log DEBUG AlreadyRunning]\<rparr>, None)
        else
          (awake_preparation_tasks
             (s\<lparr>prep_timer_handle := None,
                trace := trace s @ [Log DEBUG (NextAwakeSetMsg new), Log DEBUG (CurrentTime now)] @
                  cancel_effects CancellingPrepTimer (prep_timer_handle s) @
                  [Log DEBUG WithinWindow]\<rparr>), None))"
    using assms(6,7) by (simp add: next_awake_set_parsed [OF assms(3,4,5)])
  show ?thesis
  proof (cases "prep_end_timer_handle s")
    case None
    then show ?thesis
      by (cases "prep_timer_handle s")
        (simp_all add: eq live awake_preparation_tasks_eq cancel_effects_def)
  next
    case (Some h)
    then show ?thesis
      by (cases "prep_timer_handle s") (simp_all add: eq live cancel_effects_def)
  qed
qed


theorem update_inside_window_witness:
  "initialize example_lib 3600000000 example_args = Inr example_app
   \<and> live_for AwakePreparationTasksEnd (trace example_app) = []
   \<and> next_awake_set example_lib 63839689080000000 ''2024-01-01T07:00:00+00:00'' example_app =
       (example_preparing, None)
   \<and> count_list (trace example_app) (Log INFO PerformingPrep) = 0
   \<and> count_list (trace example_preparing) (Log INFO PerformingPrep) = 1
   \<and> live_for AwakePreparationTasksEnd (trace example_preparing) = [0]
   \<and> next_awake_set example_lib 63839689110000000 ''2024-01-01T07:10:00+00:00'' example_preparing =
       (example_preparing\<lparr>trace := trace example_preparing @
          [Log DEBUG (NextAwakeSetMsg ''2024-01-01T07:10:00+00:00''),
           Log DEBUG (CurrentTime 63839689110000000), Log DEBUG AlreadyRunning]\<rparr>, None)
   \<and> count_list (trace (fst (next_awake_set example_lib 63839689110000000
         ''2024-01-01T07:10:00+00:00'' example_preparing))) (Log INFO PerformingPrep) = 1"
  using
    update_inside_window [OF initialize_example example_app_run,
      where new = "''2024-01-01T07:00:00+00:00''" and now = 63839689080000000
        and wake = "\<lparr>wall = 63839689200000000, tzinfo = Some 0\<rparr>"
        and prep = "\<lparr>wall = 63839687400000000, tzinfo = Some 0\<rparr>" and off = 0]
    update_inside_window [OF initialize_example example_preparing_def,
      where new = "''2024-01-01T07:10:00+00:00''" and now = 63839689110000000
        and wake = "\<lparr>wall = 63839689800000000, tzinfo = Some 0\<rparr>"
        and prep = "\<lparr>wall = 63839688000000000, tzinfo = Some 0\<rparr>" and off = 0]
  by (simp add: initialize_example example_parse_0700 example_parse_0710 dt_sub_minutes_def
      example_whole_seconds live_for_def example_live_preparing)
    (simp add: example_preparing_eq example_app_def live_timers_def cancel_effects_def)

lemma example_parse_year_one:
  "parse_next_awake_time example_lib tz ''0001-01-01T00:10:00+00:00'' =
     Inr \<lparr>wall = 600000000, tzinfo = Some 0\<rparr>"
  by (simp add: parse_next_awake_time_def raw_of_def strip_def is_space_def example_lib_def)

section \<open>A wake-time update after the wake time\<close>

text \<open>
  C5, as the code has it. In every state the application can reach, when the update parses,
  the offset is not negative, the preparation instant is a representable date and
  \<open>now \<ge> wake_instant\<close>: \<open>next_awake_set\<close> touches no device and arms no timer. It cancels
  the preparation timer if one is armed, so none is live afterwards, and it leaves the
  preparation-end timer and its handle as they were: a preparation in progress stays in
  progress.
\<close>
theorem update_after_wake_time:
  assumes "initialize py tz args = Inr s0" and "s = run py s0 evs"
    and "parse_next_awake_time py (local_tz s) new = Inr wake"
    and "dt_sub_minutes wake (prep_offset_minutes s) = Inr prep"
    and "tzinfo wake = Some off"
    and "0 \<le> prep_offset_minutes s" and "wall wake - off \<le> now"
  shows "next_awake_set py now new s =
           (s\<lparr>prep_timer_handle := None,
              trace := trace s @ [Log DEBUG (NextAwakeSetMsg new), Log DEBUG (CurrentTime now)] @
                cancel_effects CancellingPrepTimer (prep_timer_handle s) @
                [Log DEBUG (AfterPrepTime now prep)]\<rparr>, None)
         \<and> live_for AwakePreparationTasks (trace (fst (next_awake_set py now new s))) = []
         \<and> live_for AwakePreparationTasksEnd (trace (fst (next_awake_set py now new s))) =
             live_for AwakePreparationTasksEnd (trace s)
         \<and> prep_end_timer_handle (fst (next_awake_set py now new s)) = prep_end_timer_handle s"
proof -
  have c: "consistent s \<and> always_single (trace s)"
    using reachable_consistent [OF assms(1)] assms(2) by simp
  have c': "consistent (fst (next_awake_set py now new s))"
    using next_awake_set_keeps [OF c] by simp
  have "wall prep \<le> wall wake"
    using dt_sub_minutes_Inr [OF assms(4)] assms(6) by simp
  then have eq: "next_awake_set py now new s =
           (s\<lparr>prep_timer_handle := None,
              trace := trace s @ [Log DEBUG (NextAwakeSetMsg new), Log DEBUG (CurrentTime now)] @
                cancel_effects CancellingPrepTimer (prep_timer_handle s) @
                [Log DEBUG (AfterPrepTime now prep)]\<rparr>, None)"
    using assms(7) by (simp add: next_awake_set_parsed [OF assms(3,4,5)])
  have "prep_timer_handle (fst (next_awake_set py now new s)) = None"
    and e: "prep_end_timer_handle (fst (next_awake_set py now new s)) = prep_end_timer_handle s"
    by (simp_all add: eq)
  with c c' have "live_for AwakePreparationTasks (trace (fst (next_awake_set py now new s))) = []"
    and "live_for AwakePreparationTasksEnd (trace (fst (next_awake_set py now new s))) =
             live_for AwakePreparationTasksEnd (trace s)"
    by (simp_all add: consistent_def handle_list_def)
  with eq e show ?thesis by simp
qed

theorem update_after_wake_time_witness:
  "initialize example_lib 3600000000 example_args = Inr example_app
   \<and> live_for AwakePreparationTasks (trace example_scheduled) = [0]
   \<and> next_awake_set example_lib 63839686200000000 ''2024-01-01T07:00:00'' example_scheduled =
       (example_scheduled\<lparr>prep_timer_handle := None,
          trace := trace example_scheduled @
            [Log DEBUG (NextAwakeSetMsg ''2024-01-01T07:00:00''),
             Log DEBUG (CurrentTime 63839686200000000),
             Log DEBUG CancellingPrepTimer, CancelTimer 0,
             Log DEBUG (AfterPrepTime 63839686200000000
               \<lparr>wall = 63839687400000000, tzinfo = Some 3600000000\<rparr>)]\<rparr>, None)
   \<and> live_for AwakePreparationTasks (trace (fst (next_awake_set example_lib 63839686200000000
         ''2024-01-01T07:00:00'' example_scheduled))) = []
   \<and> live_for AwakePreparationTasksEnd (trace (fst (next_awake_set example_lib 63839686200000000
         ''2024-01-01T07:00:00'' example_scheduled))) = []"
proof -
  have tz: "local_tz example_scheduled = 3600000000"
    by (simp add: example_scheduled_eq example_app_def)
  have p: "parse_next_awake_time example_lib (local_tz example_scheduled) ''2024-01-01T07:00:00'' =
           Inr \<lparr>wall = 63839689200000000, tzinfo = Some 3600000000\<rparr>"
    by (simp add: example_parse_naive tz)
  have d: "dt_sub_minutes \<lparr>wall = 63839689200000000, tzinfo = Some 3600000000\<rparr>
             (prep_offset_minutes example_scheduled) =
           Inr \<lparr>wall = 63839687400000000, tzinfo = Some 3600000000\<rparr>"
    and o: "0 \<le> prep_offset_minutes example_scheduled"
    by (simp_all add: example_scheduled_eq example_app_def dt_sub_minutes_def)
  have t: "tzinfo \<lparr>wall = 63839689200000000, tzinfo = Some 3600000000\<rparr> = Some 3600000000"
    and n: "wall \<lparr>wall = 63839689200000000, tzinfo = Some 3600000000\<rparr> - 3600000000
              \<le> (63839686200000000 :: int)"
    by simp_all
  have h: "prep_timer_handle example_scheduled = Some 0"
    by (simp add: example_scheduled_eq)
  show ?thesis
    using update_after_wake_time [OF initialize_example example_scheduled_def p d t o n]
    by (simp add: initialize_example live_for_def example_live_scheduled cancel_effects_def h
        live_timers_append)
qed

text \<open>
  The claim as stated fails. While a preparation that began at 06:58 UTC is in progress,
  the wake time is changed at 06:59 to 07:00 local time, which is 06:00 UTC and so already
  past: the preparation-end timer stays live. With an offset of -30 minutes an update for
  07:00 arriving at 07:00:30 arms a preparation timer. And a wake time in the first half
  hour of year 1 makes the subtraction of the offset overflow: the exception leaves the
  handler and the preparation timer armed before stays live.
\<close>

theorem update_after_wake_time_counterexample:
  "parse_next_awake_time example_lib (local_tz example_preparing) ''2024-01-01T07:00:00'' =
     Inr \<lparr>wall = 63839689200000000, tzinfo = Some 3600000000\<rparr>
   \<and> (63839689200000000 :: int) - 3600000000 \<le> 63839689140000000
   \<and> live_for AwakePreparationTasksEnd (trace (fst (next_awake_set example_lib 63839689140000000
         ''2024-01-01T07:00:00'' example_preparing))) = [0]
   \<and> prep_end_timer_handle (fst (next_awake_set example_lib 63839689140000000
         ''2024-01-01T07:00:00'' example_preparing)) = Some 0
   \<and> live_for AwakePreparationTasks (trace (fst (next_awake_set example_lib 63839689230000000
         ''2024-01-01T07:00:00+00:00'' (example_app\<lparr>prep_offset_minutes := - 30\<rparr>)))) = [0]
   \<and> parse_next_awake_time example_lib (local_tz example_scheduled) ''0001-01-01T00:10:00+00:00'' =
     Inr \<lparr>wall = 600000000, tzinfo = Some 0\<rparr>
   \<and> (600000000 :: int) - 0 \<le> 63839685660000000
   \<and> snd (next_awake_set example_lib 63839685660000000 ''0001-01-01T00:10:00+00:00''
         example_scheduled) = Some OverflowError
   \<and> live_for AwakePreparationTasks (trace (fst (next_awake_set example_lib 63839685660000000
         ''0001-01-01T00:10:00+00:00'' example_scheduled))) = [0]"
proof -
  have tz: "local_tz example_preparing = 3600000000"
    by (simp add: example_preparing_eq example_app_def)
  have a: "next_awake_set example_lib 63839689140000000 ''2024-01-01T07:00:00'' example_preparing =
       (example_preparing\<lparr>prep_timer_handle := None,
          trace := trace example_preparing @
            [Log DEBUG (NextAwakeSetMsg ''2024-01-01T07:00:00''),
             Log DEBUG (CurrentTime 63839689140000000),
             Log DEBUG (AfterPrepTime 63839689140000000
               \<lparr>wall = 63839687400000000, tzinfo = Some 3600000000\<rparr>)]\<rparr>, None)"
    by (simp add: next_awake_set_parsed [OF example_parse_naive,
          of _ "\<lparr>wall = 63839687400000000, tzinfo = Some 3600000000\<rparr>" 3600000000]
        dt_sub_minutes_def example_preparing_eq example_app_def cancel_effects_def)
  have b: "next_awake_set example_lib 63839689230000000 ''2024-01-01T07:00:00+00:00''
         (example_app\<lparr>prep_offset_minutes := - 30\<rparr>) =
       (example_app\<lparr>prep_offset_minutes := - 30, prep_timer_handle := Some 0,
          trace := trace example_app @
            [Log DEBUG (NextAwakeSetMsg ''2024-01-01T07:00:00+00:00''),
             Log DEBUG (CurrentTime 63839689230000000),
             RunIn AwakePreparationTasks 1770 0,
             Log INFO (ScheduledPrep 1770)],
          next_handle := 1\<rparr>, None)"
    by (simp add: next_awake_set_parsed [OF example_parse_0700,
          of _ "\<lparr>wall = 63839691000000000, tzinfo = Some 0\<rparr>" 0]
        dt_sub_minutes_def example_whole_seconds example_app_def cancel_effects_def)
  have c: "next_awake_set example_lib 63839685660000000 ''0001-01-01T00:10:00+00:00''
         example_scheduled =
       (example_scheduled\<lparr>trace := trace example_scheduled @
            [Log DEBUG (NextAwakeSetMsg ''0001-01-01T00:10:00+00:00'')]\<rparr>, Some OverflowError)"
    by (simp add: next_awake_set_def example_parse_year_one dt_sub_minutes_def on_exception_def
        host_defs example_scheduled_eq example_app_def)
  show ?thesis
    by (simp add: a b c example_parse_naive tz example_parse_year_one)
      (simp add: live_for_def live_timers_def example_preparing_eq example_scheduled_eq
        example_app_def)
qed

section \<open>At most one live timer of each kind\<close>

text \<open>
  C1. Start the application and let the host deliver any sequence of wake-time updates, timer
  callbacks and sleep/awake changes. At every point of the resulting history of host calls
  (every prefix of it, so also in the middle of a handler) at most one preparation timer and
  at most one preparation-end timer are live. In particular, when a preparation timer \<open>h\<close> is
  armed and an update for a later preparation instant arrives, the handler first cancels \<open>h\<close>
  and then arms one new timer with a fresh handle, which is the only live preparation timer
  afterwards.
\<close>
theorem at_most_one_timer_each:
  assumes "initialize py tz args = Inr s0" and "s = run py s0 evs"
  shows "(\<forall>p. prefix p (trace s) \<longrightarrow> at_most_one_each p)
     \<and> (\<forall>h new now wake prep off.
          prep_timer_handle s = Some h \<and>
          parse_next_awake_time py (local_tz s) new = Inr wake \<and>
          dt_sub_minutes wake (prep_offset_minutes s) = Inr prep \<and>
          tzinfo wake = Some off \<and> now < wall prep - off \<longrightarrow>
            live_for AwakePreparationTasks (trace s) = [h]
            \<and> trace (fst (next_awake_set py now new s)) =
                trace s @
                [Log DEBUG (NextAwakeSetMsg new), Log DEBUG (CurrentTime now),
                 Log DEBUG CancellingPrepTimer, CancelTimer h,
                 RunIn AwakePreparationTasks (whole_seconds py (wall prep - off - now)) (next_handle s),
                 Log INFO (ScheduledPrep (whole_seconds py (wall prep - off - now)))]
            \<and> live_for AwakePreparationTasks (trace (fst (next_awake_set py now new s))) =
                [next_handle s]
            \<and> h \<noteq> next_handle s)"
proof (intro conjI allI impI)
  have c: "consistent s \<and> always_single (trace s)"
    using reachable_consistent [OF assms(1)] assms(2) by simp
  show "at_most_one_each p" if "prefix p (trace s)" for p
    using c that by (simp add: always_single_def list_all_iff)
  fix h new now wake prep off
  assume a: "prep_timer_handle s = Some h \<and>
          parse_next_awake_time py (local_tz s) new = Inr wake \<and>
          dt_sub_minutes wake (prep_offset_minutes s) = Inr prep \<and>
          tzinfo wake = Some off \<and> now < wall prep - off"
  then have p: "parse_next_awake_time py (local_tz s) new = Inr wake"
    and d: "dt_sub_minutes wake (prep_offset_minutes s) = Inr prep"
    and t: "tzinfo wake = Some off" and h: "prep_timer_handle s = Some h"
    and n: "now < wall prep - off"
    by simp_all
  have eq: "next_awake_set py now new s =
       (s\<lparr>prep_timer_handle := Some (next_handle s),
          trace := trace s @ [Log DEBUG (NextAwakeSetMsg new), Log DEBUG (CurrentTime now)] @
            cancel_effects CancellingPrepTimer (prep_timer_handle s) @
            [RunIn AwakePreparationTasks (whole_seconds py (wall prep - off - now)) (next_handle s),
             Log INFO (ScheduledPrep (whole_seconds py (wall prep - off - now)))],
          next_handle := Suc (next_handle s)\<rparr>, None)"
    using n by (simp add: next_awake_set_parsed [OF p d t])
  have c': "consistent (fst (next_awake_set py now new s))"
    using next_awake_set_keeps [OF c] by simp
  show "live_for AwakePreparationTasks (trace s) = [h]"
    using c h by (simp add: consistent_def handle_list_def)
  show "trace (fst (next_awake_set py now new s)) =
                trace s @
                [Log DEBUG (NextAwakeSetMsg new), Log DEBUG (CurrentTime now),
                 Log DEBUG CancellingPrepTimer, CancelTimer h,
                 RunIn AwakePreparationTasks (whole_seconds py (wall prep - off - now)) (next_handle s),
                 Log INFO (ScheduledPrep (whole_seconds py (wall prep - off - now)))]"
    by (simp add: eq h cancel_effects_def)
  have "prep_timer_handle (fst (next_awake_set py now new s)) = Some (next_handle s)"
    by (simp add: eq)
  with c' show "live_for AwakePreparationTasks (trace (fst (next_awake_set py now new s))) =
                [next_handle s]"
    by (simp add: consistent_def handle_list_def)
  show "h \<noteq> next_handle s"
    using c h by (simp add: consistent_def)
qed

theorem at_most_one_timer_each_witness:
  "initialize example_lib 3600000000 example_args = Inr example_app
   \<and> prep_timer_handle example_scheduled = Some 0
   \<and> at_most_one_each (trace example_scheduled)
   \<and> live_for AwakePreparationTasks (trace example_scheduled) = [0]
   \<and> trace (fst (next_awake_set example_lib 63839685660000000 ''2024-01-01T08:00:00+00:00''
        example_scheduled)) =
       trace example_scheduled @
       [Log DEBUG (NextAwakeSetMsg ''2024-01-01T08:00:00+00:00''),
        Log DEBUG (CurrentTime 63839685660000000),
        Log DEBUG CancellingPrepTimer, CancelTimer 0,
        RunIn AwakePreparationTasks 5340 1, Log INFO (ScheduledPrep 5340)]
   \<and> live_for AwakePreparationTasks (trace (fst (next_awake_set example_lib 63839685660000000
        ''2024-01-01T08:00:00+00:00'' example_scheduled))) = [1]"
proof -
  have d: "dt_sub_minutes \<lparr>wall = 63839692800000000, tzinfo = Some 0\<rparr>
             (prep_offset_minutes example_scheduled) =
           Inr \<lparr>wall = 63839691000000000, tzinfo = Some 0\<rparr>"
    and h: "prep_timer_handle example_scheduled = Some 0"
    and n: "next_handle example_scheduled = 1"
    by (simp_all add: example_scheduled_eq example_app_def dt_sub_minutes_def example_whole_seconds)
  note th = at_most_one_timer_each [OF initialize_example example_scheduled_def]
  from th have 1: "at_most_one_each (trace example_scheduled)"
    by blast
  from th have 2: "prep_timer_handle example_scheduled = Some 0 \<and>
          parse_next_awake_time example_lib (local_tz example_scheduled) ''2024-01-01T08:00:00+00:00''
            = Inr \<lparr>wall = 63839692800000000, tzinfo = Some 0\<rparr> \<and>
          dt_sub_minutes \<lparr>wall = 63839692800000000, tzinfo = Some 0\<rparr>
            (prep_offset_minutes example_scheduled) = Inr \<lparr>wall = 63839691000000000, tzinfo = Some 0\<rparr> \<and>
          tzinfo \<lparr>wall = 63839692800000000, tzinfo = Some 0\<rparr> = Some 0 \<and>
          63839685660000000 < wall \<lparr>wall = 63839691000000000, tzinfo = Some 0\<rparr> - 0 \<longrightarrow>
            live_for AwakePreparationTasks (trace example_scheduled) = [0]
            \<and> trace (fst (next_awake_set example_lib 63839685660000000 ''2024-01-01T08:00:00+00:00'' example_scheduled)) =
                trace example_scheduled @
                [Log DEBUG (NextAwakeSetMsg ''2024-01-01T08:00:00+00:00''), Log DEBUG (CurrentTime 63839685660000000),
                 Log DEBUG CancellingPrepTimer, CancelTimer 0,
                 RunIn AwakePreparationTasks (whole_seconds example_lib (wall \<lparr>wall = 63839691000000000, tzinfo = Some 0\<rparr> - 0 - 63839685660000000)) (next_handle example_scheduled),
                 Log INFO (ScheduledPrep (whole_seconds example_lib (wall \<lparr>wall = 63839691000000000, tzinfo = Some 0\<rparr> - 0 - 63839685660000000)))]
            \<and> live_for AwakePreparationTasks (trace (fst (next_awake_set example_lib 63839685660000000 ''2024-01-01T08:00:00+00:00'' example_scheduled))) =
                [next_handle example_scheduled]
            \<and> 0 \<noteq> next_handle example_scheduled"
    by blast
  from 2 d h n show ?thesis
    by (simp add: initialize_example example_parse_0800 1 live_for_def live_timers_append
        example_live_scheduled example_whole_seconds)
qed

section \<open>The timestamp parser\<close>

lemma strip_starts:
  assumes "strip v = x # xs"
  shows "\<not> is_space x"
proof -
  let ?d = "dropWhile is_space v"
  have "rev (dropWhile is_space (rev ?d)) @ rev (takeWhile is_space (rev ?d)) = ?d"
    by (metis rev_append rev_rev_ident takeWhile_dropWhile_id)
  with assms have d: "?d = x # (xs @ rev (takeWhile is_space (rev ?d)))"
    by (simp add: strip_def)
  then have "?d \<noteq> []"
    by (metis list.distinct(1))
  then have "\<not> is_space (hd ?d)"
    by (rule hd_dropWhile)
  with d show ?thesis
    by (metis list.sel(1))
qed

lemma strip_fixed:
  assumes "xs \<noteq> []" and "\<not> is_space (hd xs)" and "\<not> is_space (last xs)"
  shows "strip xs = xs"
proof -
  from assms(1,2) have 1: "dropWhile is_space xs = xs"
    by (cases xs) simp_all
  from assms(1,3) have "rev xs \<noteq> []" and "\<not> is_space (hd (rev xs))"
    by (simp_all add: hd_rev)
  then have 2: "dropWhile is_space (rev xs) = rev xs"
    by (cases "rev xs") simp_all
  show ?thesis
    by (simp add: strip_def 1 2)
qed

lemma raw_of_Z:
  assumes "strip v = body @ ''Z''"
  shows "raw_of v = body @ ''+00:00''" and "raw_of (body @ ''+00:00'') = body @ ''+00:00''"
proof -
  show "raw_of v = body @ ''+00:00''"
    using assms by (simp add: raw_of_def)
  have "\<not> is_space (hd (body @ ''+00:00''))"
  proof (cases body)
    case Nil
    then show ?thesis by (simp add: is_space_def)
  next
    case (Cons b bs)
    with assms have "strip v = b # (bs @ ''Z'')" by simp
    from strip_starts [OF this] Cons show ?thesis by simp
  qed
  moreover have "\<not> is_space (last (body @ ''+00:00''))"
    by (simp add: is_space_def)
  ultimately have "strip (body @ ''+00:00'') = body @ ''+00:00''"
    by (intro strip_fixed) simp_all
  then show "raw_of (body @ ''+00:00'') = body @ ''+00:00''"
    by (simp add: raw_of_def)
qed

lemma try_formats_None:
  "(try_formats py raw fmts = None) = (\<forall>fmt \<in> set fmts. strptime py raw fmt = None)"
  by (induction fmts) (auto split: option.splits)

lemma parse_next_awake_time_raw:
  "raw_of v = raw_of w \<Longrightarrow> parse_next_awake_time py tz v = parse_next_awake_time py tz w"
  by (simp add: parse_next_awake_time_def)

text \<open>
  What holds of the parser for every library and every offset \<open>tz\<close> stored at start-up.
  It never returns a naive value: a successful result carries a UTC offset. A final \<open>Z\<close>
  of the stripped input is replaced before parsing, so the input parses exactly as the same
  text ending in \<open>+00:00\<close> does. The value returned is the first one the library accepts
  (\<^verbatim>\<open>fromisoformat\<close>, then the four \<^verbatim>\<open>strptime\<close> formats in order); when that value
  has no offset it gets the stored offset \<open>tz\<close>, otherwise it keeps its own. Parsing fails
  exactly when the library accepts the text in none of the five shapes, and the failure is
  a \<open>ValueError\<close>.
\<close>

theorem timestamp_parser:
  "(\<forall>d. parse_next_awake_time py tz v = Inr d \<longrightarrow> tzinfo d \<noteq> None)
   \<and> (\<forall>body. strip v = body @ ''Z'' \<longrightarrow>
         raw_of v = body @ ''+00:00'' \<and>
         parse_next_awake_time py tz v = parse_next_awake_time py tz (body @ ''+00:00''))
   \<and> (\<forall>p. (case fromisoformat py (raw_of v) of
               Some parsed \<Rightarrow> Some parsed
             | None \<Rightarrow> try_formats py (raw_of v) fallback_formats) = Some p \<longrightarrow>
         parse_next_awake_time py tz v =
           Inr (p\<lparr>tzinfo := Some (case tzinfo p of None \<Rightarrow> tz | Some off \<Rightarrow> off)\<rparr>))
   \<and> ((parse_next_awake_time py tz v = Inl ValueError) =
        (fromisoformat py (raw_of v) = None \<and>
         (\<forall>fmt \<in> set fallback_formats. strptime py (raw_of v) fmt = None)))
   \<and> (\<forall>e. parse_next_awake_time py tz v = Inl e \<longrightarrow> e = ValueError)"
proof (intro conjI allI impI)
  fix d assume "parse_next_awake_time py tz v = Inr d"
  then show "tzinfo d \<noteq> None" by (rule parse_next_awake_time_aware)
next
  fix body assume z: "strip v = body @ ''Z''"
  show "raw_of v = body @ ''+00:00''" by (rule raw_of_Z(1) [OF z])
  show "parse_next_awake_time py tz v = parse_next_awake_time py tz (body @ ''+00:00'')"
    by (rule parse_next_awake_time_raw) (simp add: raw_of_Z [OF z])
next
  fix p assume "(case fromisoformat py (raw_of v) of
               Some parsed \<Rightarrow> Some parsed
             | None \<Rightarrow> try_formats py (raw_of v) fallback_formats) = Some p"
  then show "parse_next_awake_time py tz v =
           Inr (p\<lparr>tzinfo := Some (case tzinfo p of None \<Rightarrow> tz | Some off \<Rightarrow> off)\<rparr>)"
    by (cases "tzinfo p") (simp_all add: parse_next_awake_time_def)
next
  show "(parse_next_awake_time py tz v = Inl ValueError) =
        (fromisoformat py (raw_of v) = None \<and>
         (\<forall>fmt \<in> set fallback_formats. strptime py (raw_of v) fmt = None))"
    by (auto simp add: parse_next_awake_time_def Let_def try_formats_None [symmetric]
        split: option.splits)
next
  fix e assume "parse_next_awake_time py tz v = Inl e"
  then show "e = ValueError" by (rule parse_next_awake_time_Inl)
qed

lemma timestamp_parser_examples:
  "strip ''2024-01-01T07:00:00Z'' = ''2024-01-01T07:00:00'' @ ''Z''
   \<and> raw_of ''2024-01-01T07:00:00Z'' = ''2024-01-01T07:00:00+00:00''
   \<and> parse_next_awake_time example_lib 3600000000 ''2024-01-01T07:00:00Z'' =
       Inr \<lparr>wall = 63839689200000000, tzinfo = Some 0\<rparr>
   \<and> fromisoformat example_lib (raw_of ''2024-01-01T07:00:00'') =
       Some \<lparr>wall = 63839689200000000, tzinfo = None\<rparr>
   \<and> parse_next_awake_time example_lib 3600000000 ''2024-01-01T07:00:00'' =
       Inr \<lparr>wall = 63839689200000000, tzinfo = Some 3600000000\<rparr>
   \<and> fromisoformat example_lib (raw_of '' 2024-1-1 07:00:00 '') = None
   \<and> strptime example_lib (raw_of '' 2024-1-1 07:00:00 '') ''%Y-%m-%d %H:%M:%S%z'' = None
   \<and> parse_next_awake_time example_lib 3600000000 '' 2024-1-1 07:00:00 '' =
       Inr \<lparr>wall = 63839689200000000, tzinfo = Some 3600000000\<rparr>
   \<and> fromisoformat example_lib (raw_of ''not-a-date'') = None
   \<and> list_all (\<lambda>fmt. strptime example_lib (raw_of ''not-a-date'') fmt = None) fallback_formats
   \<and> parse_next_awake_time example_lib 3600000000 ''not-a-date'' = Inl ValueError"
  using timestamp_parser [of example_lib 3600000000 "''2024-01-01T07:00:00Z''"]
    timestamp_parser [of example_lib 3600000000 "''2024-01-01T07:00:00''"]
    timestamp_parser [of example_lib 3600000000 "''not-a-date''"]
  by (simp add: parse_next_awake_time_def raw_of_def strip_def is_space_def example_lib_def
      fallback_formats_def)

lemma example_parse_july:
  "parse_next_awake_time example_lib tz ''2024-07-01T07:00:00'' =
     Inr \<lparr>wall = 63855414000000000, tzinfo = Some tz\<rparr>"
  by (simp add: parse_next_awake_time_def raw_of_def strip_def is_space_def example_lib_def)

text \<open>
  C6 fails on the code for an input without offset. The docstring of the parser says that
  the local timezone is assumed, but \<open>initialize\<close> keeps the fixed offset the local timezone
  had at start-up, and the parser attaches that offset to every naive input, whatever the
  date. Started on 2024-01-01 in a Central European zone (one hour east of UTC), the
  application reads \<open>2024-07-01T07:00:00\<close> as 07:00 at +01:00, while the local timezone
  is two hours east of UTC on that day. So at 04:45 UTC, which is 06:45 local time and
  inside the half hour before the local 07:00, the preparation does not start: a timer is
  armed for 45 minutes later.
\<close>

theorem naive_time_gets_startup_offset:
  "example_zone 63839664000000000 = 3600000000
   \<and> initialize example_lib (example_zone 63839664000000000) example_args = Inr example_app
   \<and> parse_next_awake_time example_lib (local_tz example_app) ''2024-07-01T07:00:00'' =
       Inr \<lparr>wall = 63855414000000000, tzinfo = Some 3600000000\<rparr>
   \<and> example_zone 63855414000000000 = 7200000000
   \<and> next_awake_set example_lib 63855405900000000 ''2024-07-01T07:00:00'' example_app =
       (example_app\<lparr>prep_timer_handle := Some 0,
          trace := trace example_app @
            [Log DEBUG (NextAwakeSetMsg ''2024-07-01T07:00:00''),
             Log DEBUG (CurrentTime 63855405900000000),
             RunIn AwakePreparationTasks 2700 0,
             Log INFO (ScheduledPrep 2700)],
          next_handle := 1\<rparr>, None)"
proof -
  have z: "example_zone 63839664000000000 = 3600000000"
    and z': "example_zone 63855414000000000 = 7200000000"
    by (simp_all add: example_zone_def)
  have tz: "local_tz example_app = 3600000000"
    by (simp add: example_app_def)
  have n: "next_awake_set example_lib 63855405900000000 ''2024-07-01T07:00:00'' example_app =
       (example_app\<lparr>prep_timer_handle := Some 0,
          trace := trace example_app @
            [Log DEBUG (NextAwakeSetMsg ''2024-07-01T07:00:00''),
             Log DEBUG (CurrentTime 63855405900000000),
             RunIn AwakePreparationTasks 2700 0,
             Log INFO (ScheduledPrep 2700)],
          next_handle := 1\<rparr>, None)"
    by (simp add: next_awake_set_parsed [OF example_parse_july,
          of _ "\<lparr>wall = 63855412200000000, tzinfo = Some 3600000000\<rparr>" 3600000000]
        dt_sub_minutes_def example_whole_seconds example_app_def cancel_effects_def)
  show ?thesis
    by (simp add: z z' tz n initialize_example example_parse_july)
qed

section \<open>Start-up failures\<close>

lemma get_required_arg_plain:
  "get_required_arg args key [] tr =
     (if unset args key then (tr @ [Log ERROR (MissingArg key)], Inl ValueError)
      else (tr, Inr (dict_get args key)))"
  by (simp add: get_required_arg_def unset_def)

lemma get_required_arg_alias:
  "get_required_arg args key [alias] tr =
     (if \<not> unset args key then (tr, Inr (dict_get args key))
      else if args alias = None then (tr @ [Log ERROR (MissingArg key)], Inl ValueError)
      else if unset args alias
        then (tr @ [Log WARNING (LegacyArg alias key), Log ERROR (MissingArg key)], Inl ValueError)
      else (tr @ [Log WARNING (LegacyArg alias key)], Inr (dict_get args alias)))"
  by (simp add: get_required_arg_def unset_def)

lemma get_int_arg_cases:
  "get_int_arg py args key PNone tr =
     (if unset args key then (tr @ [Log ERROR (MissingArg key)], Inl ValueError)
      else case py_int py (dict_get args key) of
             Inr n \<Rightarrow> (tr, Inr n)
           | Inl e \<Rightarrow>
               if e = OverflowError then (tr, Inl OverflowError)
               else (tr @ [Log ERROR (InvalidInteger key (dict_get args key))], Inl ValueError))"
proof -
  have "(case args key of None \<Rightarrow> PNone | Some x \<Rightarrow> x) = dict_get args key"
    by (simp add: dict_get_def)
  then show ?thesis
    by (auto simp: get_int_arg_def unset_def Let_def split: sum.splits)
      (metis py_error.exhaust)
qed

lemma unset_alias: "unset args key \<Longrightarrow> args key = None \<or> args key = Some PNone"
  by (auto simp: unset_def dict_get_def split: option.splits)




lemma initialize_error_kind:
  "initialize py tz args = Inl (e, tr) \<Longrightarrow>
   e = ValueError \<or> (e = OverflowError \<and> py_int py (dict_get args ''prep_offset_minutes'') = Inl OverflowError)"
  unfolding initialize_def get_required_arg_plain get_required_arg_alias get_int_arg_cases
  by (auto split: sum.splits if_splits)








section \<open>The offset goes through \<^verbatim>\<open>int()\<close>\<close>



end
